theory Spec2Isabelle
  imports Complex_Main "HOL-Library.Sublist" "HOL-Library.Multiset"
begin

section \<open>Name similarity (config-audit: isSimilarName, levenshteinDistance)\<close>

text \<open>
  A JavaScript string is a sequence of code units; the functions of this section only
  compare code units for equality and count them, so they are modelled over lists of an
  arbitrary code-unit type \<open>'c\<close>.

  \<open>String.prototype.includes\<close> (\<open>str_includes\<close>): the argument occurs as a contiguous run of the receiver.
\<close>

fun str_includes :: "'c list \<Rightarrow> 'c list \<Rightarrow> bool" where
  "str_includes [] p = (p = [])"
| "str_includes (x # xs) p = (prefix p (x # xs) \<or> str_includes xs p)"

text \<open>
  \<open>levenshteinDistance\<close> fills a table \<open>dp\<close> of \<open>m + 1\<close> rows and \<open>n + 1\<close> columns.
  The table is a list of rows; \<open>dp[i][j] = v\<close> is \<open>setCell\<close>. Every index the loops
  produce is inside the table (lemma \<open>wfTable_fillTable\<close> below), so the out-of-range
  behaviour of JavaScript arrays is never reached.
\<close>

definition newTable :: "nat \<Rightarrow> nat \<Rightarrow> nat list list" where
  "newTable m n = replicate (m + 1) (replicate (n + 1) 0)"

definition setCell :: "nat list list \<Rightarrow> nat \<Rightarrow> nat \<Rightarrow> nat \<Rightarrow> nat list list" where
  "setCell dp i j v = dp[i := (dp ! i)[j := v]]"

definition initColumn :: "nat \<Rightarrow> nat list list \<Rightarrow> nat list list" where
  \<comment> \<open>\<open>for (let i = 0; i <= m; i++) dp[i][0] = i\<close>\<close>
  "initColumn m dp = fold (\<lambda>i dp. setCell dp i 0 i) [0..<m + 1] dp"

definition initRow :: "nat \<Rightarrow> nat list list \<Rightarrow> nat list list" where
  \<comment> \<open>\<open>for (let j = 0; j <= n; j++) dp[0][j] = j\<close>\<close>
  "initRow n dp = fold (\<lambda>j dp. setCell dp 0 j j) [0..<n + 1] dp"

definition cellStep :: "'c list \<Rightarrow> 'c list \<Rightarrow> nat \<Rightarrow> nat \<Rightarrow> nat list list \<Rightarrow> nat list list" where
  \<comment> \<open>the body of the inner loop, for \<open>1 \<le> i\<close> and \<open>1 \<le> j\<close>\<close>
  "cellStep s1 s2 i j dp =
     (if s1 ! (i - 1) = s2 ! (j - 1)
      then setCell dp i j (dp ! (i - 1) ! (j - 1))
      else setCell dp i j
             (1 + min (dp ! (i - 1) ! j) (min (dp ! i ! (j - 1)) (dp ! (i - 1) ! (j - 1)))))"

definition fillRow :: "'c list \<Rightarrow> 'c list \<Rightarrow> nat \<Rightarrow> nat \<Rightarrow> nat list list \<Rightarrow> nat list list" where
  \<comment> \<open>\<open>for (let j = 1; j <= n; j++) { ... }\<close>\<close>
  "fillRow s1 s2 n i dp = fold (cellStep s1 s2 i) [1..<n + 1] dp"

definition fillTable :: "'c list \<Rightarrow> 'c list \<Rightarrow> nat \<Rightarrow> nat \<Rightarrow> nat list list \<Rightarrow> nat list list" where
  \<comment> \<open>\<open>for (let i = 1; i <= m; i++) for (let j = 1; j <= n; j++) { ... }\<close>\<close>
  "fillTable s1 s2 m n dp = fold (fillRow s1 s2 n) [1..<m + 1] dp"

definition levenshteinDistance :: "'c list \<Rightarrow> 'c list \<Rightarrow> nat" where
  "levenshteinDistance s1 s2 =
     (let m = length s1;
          n = length s2;
          dp = fillTable s1 s2 m n (initRow n (initColumn m (newTable m n)))
      in dp ! m ! n)"

text \<open>
  \<open>isSimilarName\<close>. The source computes \<open>similarity = 1 - distance / maxLen\<close> in
  double precision and compares it with the literal \<open>0.8\<close>; the model computes in the
  reals. The two agree: the quotient of two integers below \<open>2^53\<close> is rounded
  correctly, on the boundary \<open>5 * distance = maxLen\<close> the double computation yields exactly
  the double \<open>0.8\<close> (so the strict comparison is false, as in the reals), and off the
  boundary the quotient differs from \<open>0.2\<close> by at least \<open>1 / (5 * maxLen)\<close>, far more than
  the rounding error for any string length that fits in memory.
\<close>

definition isSimilarName :: "'c list \<Rightarrow> 'c list \<Rightarrow> bool" where
  "isSimilarName name1 name2 =
     (if name1 = name2 then False
      else if str_includes name1 name2 \<or> str_includes name2 name1
           then length name1 > 3 \<and> length name2 > 3
      else (let distance = levenshteinDistance name1 name2;
                maxLen = max (length name1) (length name2);
                similarity = (1::real) - real distance / real maxLen
            in similarity > 8 / 10 \<and> maxLen > 5))"

text \<open>
  The textbook recurrence of the edit distance between the first \<open>i\<close> code units of
  \<open>s1\<close> and the first \<open>j\<close> code units of \<open>s2\<close>, against which the table is verified.
\<close>

fun lev :: "'c list \<Rightarrow> 'c list \<Rightarrow> nat \<Rightarrow> nat \<Rightarrow> nat" where
  "lev s1 s2 0 j = j"
| "lev s1 s2 (Suc i) 0 = Suc i"
| "lev s1 s2 (Suc i) (Suc j) =
     (if s1 ! i = s2 ! j then lev s1 s2 i j
      else 1 + min (lev s1 s2 i (Suc j)) (min (lev s1 s2 (Suc i) j) (lev s1 s2 i j)))"

definition wfTable :: "nat \<Rightarrow> nat \<Rightarrow> nat list list \<Rightarrow> bool" where
  "wfTable m n dp \<longleftrightarrow> length dp = m + 1 \<and> (\<forall>row \<in> set dp. length row = n + 1)"

definition initialised :: "nat \<Rightarrow> nat \<Rightarrow> nat list list \<Rightarrow> bool" where
  "initialised m n dp \<longleftrightarrow>
     wfTable m n dp \<and> (\<forall>a \<le> m. dp ! a ! 0 = a) \<and> (\<forall>b \<le> n. dp ! 0 ! b = b)"

section \<open>Strings and numbers of the source language\<close>

text \<open>
  Names, groups and identifiers are JavaScript strings. They are modelled as \<open>string\<close>,
  one \<open>char\<close> per code unit, which covers the code units below 256 (ASCII and Latin-1).
  \<open>toLowerCase\<close> maps \<open>A\<close>-\<open>Z\<close> and the Latin-1 capitals (192-222 except the
  multiplication sign 215) to the letter 32 places further on and leaves every other code
  unit alone. \<open>toUpperCase\<close> is only applied before a test against the classes
  \<open>[0-9A-Z]\<close>: it maps \<open>a\<close>-\<open>z\<close> and the Latin-1 small letters 224-254 (except the
  division sign 247) 32 places back; the three Latin-1 letters whose capital is not a
  single Latin-1 code unit (181, 223, 255) are left alone, which does not change the
  outcome of such a test on a string of fixed length.
\<close>

definition toLowerCaseChar :: "char \<Rightarrow> char" where
  "toLowerCaseChar c =
     (let n = (of_char c :: nat)
      in if (65 \<le> n \<and> n \<le> 90) \<or> (192 \<le> n \<and> n \<le> 222 \<and> n \<noteq> 215)
         then char_of (n + 32) else c)"

definition toLowerCase :: "string \<Rightarrow> string" where
  "toLowerCase s = map toLowerCaseChar s"

definition toUpperCaseChar :: "char \<Rightarrow> char" where
  "toUpperCaseChar c =
     (let n = (of_char c :: nat)
      in if (97 \<le> n \<and> n \<le> 122) \<or> (224 \<le> n \<and> n \<le> 254 \<and> n \<noteq> 247)
         then char_of (n - 32) else c)"

definition toUpperCase :: "string \<Rightarrow> string" where
  "toUpperCase s = map toUpperCaseChar s"

definition isDigit :: "char \<Rightarrow> bool" where
  \<comment> \<open>the class \<open>[0-9]\<close>\<close>
  "isDigit c = (let n = (of_char c :: nat) in 48 \<le> n \<and> n \<le> 57)"

definition isDigit19 :: "char \<Rightarrow> bool" where
  \<comment> \<open>the class \<open>[1-9]\<close>\<close>
  "isDigit19 c = (let n = (of_char c :: nat) in 49 \<le> n \<and> n \<le> 57)"

definition isUpperAZ :: "char \<Rightarrow> bool" where
  \<comment> \<open>the class \<open>[A-Z]\<close>\<close>
  "isUpperAZ c = (let n = (of_char c :: nat) in 65 \<le> n \<and> n \<le> 90)"

definition isLowerAZ :: "char \<Rightarrow> bool" where
  \<comment> \<open>the class \<open>[a-z]\<close>\<close>
  "isLowerAZ c = (let n = (of_char c :: nat) in 97 \<le> n \<and> n \<le> 122)"

definition stripNonAlnum :: "string \<Rightarrow> string" where
  \<comment> \<open>\<open>.replace(/[^a-z0-9]/g, '')\<close>\<close>
  "stripNonAlnum s = filter (\<lambda>c. isLowerAZ c \<or> isDigit c) s"

text \<open>\<open>String(n)\<close> for a non-negative integer: its decimal digits.\<close>

definition digitChar :: "nat \<Rightarrow> char" where
  "digitChar d = ''0123456789'' ! d"

fun showNat :: "nat \<Rightarrow> string" where
  "showNat n = (if n < 10 then [digitChar n] else showNat (n div 10) @ [digitChar (n mod 10)])"

declare showNat.simps [simp del]

section \<open>Configuration audit: data\<close>

text \<open>
  The audit reads ledgers, stock items and the company list from the accounting system
  and reports issues. The records below hold the fields the audit reads. A field of a
  ledger or stock item that is absent or empty in the reply is the empty string (both are
  falsy in the source); \<open>CLOSINGBALANCE\<close> is the number \<open>parseAmount\<close> returns for
  it. The display texts of an issue and of the report (\<open>title\<close>, \<open>description\<close>,
  \<open>currentValue\<close>, \<open>suggestedValue\<close>, \<open>recommendations\<close>) are not modelled.
\<close>

datatype severity = Critical | High | Medium | Low

datatype category =
  GST | TDS | LedgerClassification | PartyMaster | StockItem | VoucherType | CompanyInfo

datatype fixType =
  rename_ledger | regroup_ledger | update_gst_details | update_tds_details
  | create_ledger | update_party | update_stock_item | update_company

datatype jsval = Str string | Bool bool

record FixAction =
  fixType :: fixType
  targetName :: string
  changes :: "(string \<times> jsval) list"

record AuditIssue =
  issueId :: string
  category :: category
  severity :: severity
  affectedItems :: "string list option"
  autoFixable :: bool
  fixAction :: "FixAction option"

datatype status = Good | NeedsAttention | CriticalStatus

record CategoryAudit =
  score :: int
  status :: status
  issueCount :: nat
  summary :: string

record Categories =
  gst :: CategoryAudit
  tds :: CategoryAudit
  ledgerClassification :: CategoryAudit
  partyMaster :: CategoryAudit
  stockItems :: CategoryAudit
  companyInfo :: CategoryAudit

record AuditReport =
  companyName :: string
  auditDate :: string
  overallScore :: int
  totalIssues :: nat
  criticalIssues :: nat
  highIssues :: nat
  mediumIssues :: nat
  lowIssues :: nat
  categories :: Categories
  issues :: "AuditIssue list"

record TallyCompany =
  company_name :: string
  gstNumber :: string
  panNumber :: string
  tanNumber :: string
  state :: string

record Ledger =
  NAME :: string
  PARENT :: string
  CLOSINGBALANCE :: real
  GSTAPPLICABLE :: string
  ISTAXABLE :: string
  ISTDSAPPLICABLE :: string
  INCOMETAXNUMBER :: string
  TDSDEDUCTEETYPE :: string
  PARTYGSTIN :: string
  GSTREGISTRATIONTYPE :: string
  LEDGERSTATENAME :: string

record StockItemData =
  stock_NAME :: string
  HSNCODE :: string
  GSTRATE :: "real option"
  BASEUNITS :: string

text \<open>
  What the accounting system answers during one audit run. Each check sends its own
  request, so each has its own reply; \<open>None\<close> is a failed request: \<open>executeRequest\<close>
  catches every transport error and returns \<open>success: false\<close>.
\<close>

record TallyReplies =
  configCompanyName :: "string option"
  companyList :: "TallyCompany list option"
  ledgersForGST :: "Ledger list option"
  ledgersForTDS :: "Ledger list option"
  ledgersForClassification :: "Ledger list option"
  ledgersForParty :: "Ledger list option"
  stockItemsReply :: "StockItemData list option"

section \<open>Configuration audit: rule tables\<close>

definition GST_OUTPUT_IGST :: "string list" where
  "GST_OUTPUT_IGST = [''output igst'', ''igst payable'', ''igst output'', ''igst on sales'']"

definition GST_OUTPUT_CGST :: "string list" where
  "GST_OUTPUT_CGST = [''output cgst'', ''cgst payable'', ''cgst output'', ''cgst on sales'']"

definition GST_OUTPUT_SGST :: "string list" where
  "GST_OUTPUT_SGST =
     [''output sgst'', ''sgst payable'', ''sgst output'', ''sgst on sales'', ''utgst payable'']"

definition GST_INPUT_IGST :: "string list" where
  "GST_INPUT_IGST = [''input igst'', ''igst receivable'', ''igst input'', ''igst on purchase'']"

definition GST_INPUT_CGST :: "string list" where
  "GST_INPUT_CGST = [''input cgst'', ''cgst receivable'', ''cgst input'', ''cgst on purchase'']"

definition GST_INPUT_SGST :: "string list" where
  "GST_INPUT_SGST =
     [''input sgst'', ''sgst receivable'', ''sgst input'', ''sgst on purchase'',
      ''utgst receivable'']"

definition requiredGSTLedgers :: "(string \<times> string \<times> string list) list" where
  \<comment> \<open>\<open>type\<close>, \<open>name\<close>, \<open>patterns\<close>\<close>
  "requiredGSTLedgers =
     [(''OUTPUT_IGST'', ''Output IGST'', GST_OUTPUT_IGST),
      (''OUTPUT_CGST'', ''Output CGST'', GST_OUTPUT_CGST),
      (''OUTPUT_SGST'', ''Output SGST'', GST_OUTPUT_SGST),
      (''INPUT_IGST'', ''Input IGST'', GST_INPUT_IGST),
      (''INPUT_CGST'', ''Input CGST'', GST_INPUT_CGST),
      (''INPUT_SGST'', ''Input SGST'', GST_INPUT_SGST)]"

definition requiredTDSSections :: "(string \<times> string \<times> string list) list" where
  \<comment> \<open>\<open>section\<close>, \<open>name\<close>, \<open>patterns\<close>\<close>
  "requiredTDSSections =
     [(''194C'', ''TDS on Contractor (194C)'',
         [''tds 194c'', ''tds on contractor'', ''tds contractor'', ''tds - contractor'']),
      (''194J'', ''TDS on Professional (194J)'',
         [''tds 194j'', ''tds on professional'', ''tds professional'', ''tds - professional'',
          ''tds technical'']),
      (''194H'', ''TDS on Commission (194H)'',
         [''tds 194h'', ''tds on commission'', ''tds commission'', ''tds - commission'',
          ''tds brokerage'']),
      (''194I'', ''TDS on Rent (194I)'',
         [''tds 194i'', ''tds on rent'', ''tds rent'', ''tds - rent'']),
      (''194A'', ''TDS on Interest (194A)'',
         [''tds 194a'', ''tds on interest'', ''tds interest'', ''tds - interest''])]"

definition TDS_APPLICABLE_EXPENSES :: "(string \<times> string list) list" where
  "TDS_APPLICABLE_EXPENSES =
     [(''194C'', [''contractor'', ''labour'', ''job work'', ''works contract'', ''sub-contract'',
                  ''transportation'', ''freight'', ''cartage'', ''loading'', ''unloading'',
                  ''catering'', ''housekeeping'', ''security'']),
      (''194J'', [''professional'', ''consultancy'', ''legal'', ''audit'', ''accounting'',
                  ''technical'', ''architect'', ''interior'', ''doctor'', ''medical'',
                  ''engineering'', ''ca fees'', ''advocate'']),
      (''194H'', [''commission'', ''brokerage'', ''agency'']),
      (''194I'', [''rent'', ''lease'', ''hire'']),
      (''194A'', [''interest''])]"

definition misclassificationRules :: "(string list \<times> string \<times> string list) list" where
  \<comment> \<open>\<open>keywords\<close>, \<open>shouldBeUnder\<close>, \<open>currentlyUnder\<close>\<close>
  "misclassificationRules =
     [([''rent received'', ''rent income''], ''Indirect Incomes'', [''direct incomes'', ''sales'']),
      ([''interest received'', ''interest income'', ''bank interest''], ''Indirect Incomes'',
         [''direct incomes'', ''sales'']),
      ([''discount received''], ''Indirect Incomes'', [''direct incomes'', ''sales'']),
      ([''salary'', ''wages'', ''staff welfare''], ''Indirect Expenses'', [''direct expenses'']),
      ([''depreciation''], ''Indirect Expenses'', [''direct expenses'']),
      ([''bank charges'', ''bank commission''], ''Indirect Expenses'', [''direct expenses'']),
      ([''electricity'', ''power'', ''telephone'', ''mobile''], ''Indirect Expenses'',
         [''direct expenses'']),
      ([''audit fee'', ''professional fee'', ''legal fee''], ''Indirect Expenses'',
         [''direct expenses'']),
      ([''fixed deposit'', ''fd'', ''term deposit''], ''Investments'',
         [''bank accounts'', ''current assets'']),
      ([''security deposit'', ''earnest money'', ''emd''], ''Deposits (Asset)'',
         [''current assets'', ''loans''])]"

section \<open>Configuration audit: the checks\<close>

definition isValidGSTIN :: "string \<Rightarrow> bool" where
  \<comment> \<open>\<open>/^[0-9]{2}[A-Z]{5}[0-9]{4}[A-Z]{1}[1-9A-Z]{1}Z[0-9A-Z]{1}$/\<close> on the upper-cased text\<close>
  "isValidGSTIN gstin =
     (if gstin = [] \<or> length gstin \<noteq> 15 then False
      else (let u = toUpperCase gstin
            in list_all isDigit (take 2 u)
             \<and> list_all isUpperAZ (take 5 (drop 2 u))
             \<and> list_all isDigit (take 4 (drop 7 u))
             \<and> isUpperAZ (u ! 11)
             \<and> (isDigit19 (u ! 12) \<or> isUpperAZ (u ! 12))
             \<and> u ! 13 = CHR ''Z''
             \<and> (isDigit (u ! 14) \<or> isUpperAZ (u ! 14))))"

definition isValidPAN :: "string \<Rightarrow> bool" where
  \<comment> \<open>\<open>/^[A-Z]{5}[0-9]{4}[A-Z]{1}$/\<close> on the upper-cased text\<close>
  "isValidPAN pan =
     (if pan = [] \<or> length pan \<noteq> 10 then False
      else (let u = toUpperCase pan
            in list_all isUpperAZ (take 5 u)
             \<and> list_all isDigit (take 4 (drop 5 u))
             \<and> isUpperAZ (u ! 9)))"

definition plainIssue :: "string \<Rightarrow> category \<Rightarrow> severity \<Rightarrow> string list option \<Rightarrow> AuditIssue" where
  \<comment> \<open>an issue that is not auto-fixable and carries no fix action\<close>
  "plainIssue i c s items =
     \<lparr>issueId = i, category = c, severity = s, affectedItems = items,
      autoFixable = False, fixAction = None\<rparr>"

definition fixableIssue ::
  "string \<Rightarrow> category \<Rightarrow> severity \<Rightarrow> string list option \<Rightarrow> FixAction \<Rightarrow> AuditIssue" where
  "fixableIssue i c s items act =
     \<lparr>issueId = i, category = c, severity = s, affectedItems = items,
      autoFixable = True, fixAction = Some act\<rparr>"

definition auditCompanyInfo :: "string \<Rightarrow> TallyCompany list option \<Rightarrow> AuditIssue list" where
  "auditCompanyInfo currentCompany companyResult =
     (case companyResult of
        None \<Rightarrow> []
      | Some companies \<Rightarrow>
          (case find (\<lambda>c. company_name c = currentCompany) companies of
             None \<Rightarrow> []
           | Some company \<Rightarrow>
               (if gstNumber company = [] then [plainIssue ''COMP_001'' CompanyInfo Critical None]
                else if \<not> isValidGSTIN (gstNumber company)
                     then [plainIssue ''COMP_002'' CompanyInfo High None]
                else [])
               @ (if panNumber company = [] then [plainIssue ''COMP_003'' CompanyInfo Critical None]
                  else if \<not> isValidPAN (panNumber company)
                       then [plainIssue ''COMP_004'' CompanyInfo High None]
                  else [])
               @ (if tanNumber company = [] then [plainIssue ''COMP_005'' CompanyInfo High None]
                  else [])
               @ (if state company = [] then [plainIssue ''COMP_006'' CompanyInfo High None]
                  else [])))"

definition underDutiesOrTaxes :: "Ledger \<Rightarrow> bool" where
  "underDutiesOrTaxes l =
     (str_includes (toLowerCase (PARENT l)) ''duties''
      \<or> str_includes (toLowerCase (PARENT l)) ''taxes'')"

definition matchesPatterns :: "string list \<Rightarrow> Ledger \<Rightarrow> bool" where
  \<comment> \<open>\<open>required.patterns.some(p => extractString(l.NAME).toLowerCase().includes(p))\<close>\<close>
  "matchesPatterns patterns l = list_ex (\<lambda>p. str_includes (toLowerCase (NAME l)) p) patterns"

definition gstMissingIssue :: "string \<times> string \<times> string list \<Rightarrow> AuditIssue" where
  "gstMissingIssue required =
     (case required of (type, name, patterns) \<Rightarrow>
        fixableIssue (''GST_'' @ type @ ''_MISSING'') GST Critical None
          \<lparr>fixType = create_ledger, targetName = name,
           changes = [(''parent'', Str ''Duties & Taxes''), (''typeOfDuty'', Str ''GST''),
                      (''gstDutyHead'',
                       Str (if str_includes type ''OUTPUT'' then ''Output'' else ''Input''))]\<rparr>)"

definition gstNamingIssues :: "Ledger \<Rightarrow> AuditIssue list" where
  \<comment> \<open>the two checks made on each ledger under Duties and Taxes\<close>
  "gstNamingIssues ledger =
     (let name = toLowerCase (NAME ledger)
      in (if str_includes name ''gst'' \<and> \<not> str_includes name ''igst''
             \<and> \<not> str_includes name ''cgst'' \<and> \<not> str_includes name ''sgst''
             \<and> \<not> str_includes name ''cess''
          then [plainIssue (''GST_AMBIGUOUS_'' @ NAME ledger) GST High (Some [NAME ledger])]
          else [])
       @ (if (str_includes name ''igst'' \<or> str_includes name ''cgst'' \<or> str_includes name ''sgst'')
             \<and> \<not> str_includes (toLowerCase (PARENT ledger)) ''duties''
          then [fixableIssue (''GST_WRONG_GROUP_'' @ NAME ledger) GST High (Some [NAME ledger])
                  \<lparr>fixType = regroup_ledger, targetName = NAME ledger,
                   changes = [(''parent'', Str ''Duties & Taxes'')]\<rparr>]
          else []))"

definition gstNotConfigured :: "Ledger \<Rightarrow> bool" where
  \<comment> \<open>\<open>!ledger.GSTAPPLICABLE && !ledger.ISTAXABLE\<close>\<close>
  "gstNotConfigured ledger = (GSTAPPLICABLE ledger = [] \<and> ISTAXABLE ledger = [])"

definition auditGSTConfiguration :: "Ledger list option \<Rightarrow> AuditIssue list" where
  "auditGSTConfiguration response =
     (case response of
        None \<Rightarrow> []
      | Some ledgers \<Rightarrow>
          (let dutiesLedgers = filter underDutiesOrTaxes ledgers;
               salesLedgers =
                 filter (\<lambda>l. str_includes (toLowerCase (PARENT l)) ''sales'') ledgers;
               purchaseLedgers =
                 filter (\<lambda>l. str_includes (toLowerCase (PARENT l)) ''purchase'') ledgers
           in concat (map (\<lambda>required.
                        (case find (matchesPatterns (snd (snd required))) dutiesLedgers of
                           None \<Rightarrow> [gstMissingIssue required]
                         | Some found \<Rightarrow> []))
                      requiredGSTLedgers)
            @ concat (map gstNamingIssues dutiesLedgers)
            @ map (\<lambda>ledger. plainIssue (''GST_SALES_'' @ NAME ledger) GST Medium
                              (Some [NAME ledger]))
                (filter gstNotConfigured salesLedgers)
            @ map (\<lambda>ledger. plainIssue (''GST_PURCHASE_'' @ NAME ledger) GST Medium
                              (Some [NAME ledger]))
                (filter gstNotConfigured purchaseLedgers)))"

definition tdsMissingIssue :: "string \<times> string \<times> string list \<Rightarrow> AuditIssue" where
  "tdsMissingIssue required =
     (case required of (section, name, patterns) \<Rightarrow>
        fixableIssue (''TDS_'' @ section @ ''_MISSING'') TDS High None
          \<lparr>fixType = create_ledger, targetName = name,
           changes = [(''parent'', Str ''Duties & Taxes''), (''typeOfDuty'', Str ''TDS''),
                      (''tdsSection'', Str section)]\<rparr>)"

fun tdsExpenseIssues :: "Ledger \<Rightarrow> (string \<times> string list) list \<Rightarrow> AuditIssue list" where
  \<comment> \<open>the loop over the sections, left at the first section with a matching keyword\<close>
  "tdsExpenseIssues ledger [] = []"
| "tdsExpenseIssues ledger ((section, keywords) # rest) =
     (case find (\<lambda>kw. str_includes (toLowerCase (NAME ledger)) kw) keywords of
        Some matchingKeyword \<Rightarrow>
          (if ISTDSAPPLICABLE ledger = [] \<or> ISTDSAPPLICABLE ledger = ''No''
           then [fixableIssue (''TDS_EXPENSE_'' @ NAME ledger @ ''_'' @ section) TDS High
                   (Some [NAME ledger])
                   \<lparr>fixType = update_tds_details, targetName = NAME ledger,
                    changes = [(''isTDSApplicable'', Bool True), (''tdsSection'', Str section)]\<rparr>]
           else [])
      | None \<Rightarrow> tdsExpenseIssues ledger rest)"

definition auditTDSConfiguration :: "Ledger list option \<Rightarrow> AuditIssue list" where
  "auditTDSConfiguration response =
     (case response of
        None \<Rightarrow> []
      | Some ledgers \<Rightarrow>
          (let dutiesLedgers = filter underDutiesOrTaxes ledgers;
               expenseLedgers =
                 filter (\<lambda>l. str_includes (toLowerCase (PARENT l)) ''expense'') ledgers;
               creditorLedgers =
                 filter (\<lambda>l. str_includes (toLowerCase (PARENT l)) ''sundry creditor'') ledgers;
               significant = filter (\<lambda>l. \<bar>CLOSINGBALANCE l\<bar> > 30000) creditorLedgers;
               creditorsWithoutPAN =
                 map NAME (filter (\<lambda>l. INCOMETAXNUMBER l = []) significant);
               creditorsWithoutTDSType =
                 map NAME (filter (\<lambda>l. TDSDEDUCTEETYPE l = []) significant)
           in concat (map (\<lambda>required.
                        (case find (matchesPatterns (snd (snd required))) dutiesLedgers of
                           None \<Rightarrow> [tdsMissingIssue required]
                         | Some found \<Rightarrow> []))
                      requiredTDSSections)
            @ concat (map (\<lambda>ledger. tdsExpenseIssues ledger TDS_APPLICABLE_EXPENSES)
                        expenseLedgers)
            @ (if length creditorsWithoutPAN > 0
               then [plainIssue ''TDS_CREDITORS_NO_PAN'' TDS High
                       (Some (take 10 creditorsWithoutPAN))]
               else [])
            @ (if length creditorsWithoutTDSType > 0
               then [plainIssue ''TDS_CREDITORS_NO_TYPE'' TDS Medium
                       (Some (take 10 creditorsWithoutTDSType))]
               else [])))"

definition misclassIssues :: "Ledger \<Rightarrow> AuditIssue list" where
  \<comment> \<open>the loop over the misclassification rules; it has no \<open>break\<close>\<close>
  "misclassIssues ledger =
     (let name = toLowerCase (NAME ledger);
          parent = toLowerCase (PARENT ledger)
      in concat (map (\<lambda>rule.
           (case rule of (keywords, shouldBeUnder, currentlyUnder) \<Rightarrow>
              (case find (\<lambda>kw. str_includes name kw) keywords of
                 Some matchingKeyword \<Rightarrow>
                   (if list_ex (\<lambda>g. str_includes parent g) currentlyUnder
                    then [fixableIssue (''LEDGER_MISCLASS_'' @ NAME ledger) LedgerClassification
                            Medium (Some [NAME ledger])
                            \<lparr>fixType = regroup_ledger, targetName = NAME ledger,
                             changes = [(''parent'', Str shouldBeUnder)]\<rparr>]
                    else [])
               | None \<Rightarrow> [])))
           misclassificationRules))"

definition normalizedName :: "string \<Rightarrow> string" where
  \<comment> \<open>\<open>extractString(l.NAME).toLowerCase().replace(/[^a-z0-9]/g, '')\<close>\<close>
  "normalizedName name = stripNonAlnum (toLowerCase name)"

definition ledgerNames :: "Ledger list \<Rightarrow> (string \<times> string) list" where
  \<comment> \<open>pairs \<open>(name, normalized)\<close>\<close>
  "ledgerNames ledgers = map (\<lambda>l. (NAME l, normalizedName (NAME l))) ledgers"

definition similarTo :: "(string \<times> string) list \<Rightarrow> nat \<Rightarrow> (string \<times> string) list" where
  \<comment> \<open>\<open>ledgerNames.filter((l, j) => j !== i && isSimilarName(ledgerNames[i].normalized, l.normalized))\<close>\<close>
  "similarTo names i =
     map snd (filter (\<lambda>(j, l). j \<noteq> i \<and> isSimilarName (snd (names ! i)) (snd l))
                (enumerate 0 names))"

definition duplicateStep ::
  "(string \<times> string) list \<Rightarrow> nat \<Rightarrow> string list list \<times> string set
     \<Rightarrow> string list list \<times> string set" where
  \<comment> \<open>one turn of the loop over \<open>i\<close>; the state is \<open>(duplicateGroups, checked)\<close>\<close>
  "duplicateStep names i st =
     (case st of (duplicateGroups, checked) \<Rightarrow>
        if snd (names ! i) \<in> checked then st
        else (let similar = similarTo names i
              in if length similar > 0
                 then (duplicateGroups @ [fst (names ! i) # map fst similar],
                       insert (snd (names ! i)) checked \<union> set (map snd similar))
                 else st))"

definition duplicateGroups :: "(string \<times> string) list \<Rightarrow> string list list" where
  "duplicateGroups names = fst (fold (duplicateStep names) [0..<length names] ([], {}))"

definition duplicateIssues :: "Ledger list \<Rightarrow> AuditIssue list" where
  "duplicateIssues ledgers =
     map (\<lambda>group. plainIssue (''LEDGER_DUPLICATE_'' @ group ! 0) LedgerClassification Medium
                     (Some group))
       (duplicateGroups (ledgerNames ledgers))"

definition auditLedgerClassification :: "Ledger list option \<Rightarrow> AuditIssue list" where
  "auditLedgerClassification response =
     (case response of
        None \<Rightarrow> []
      | Some ledgers \<Rightarrow>
          (let suspenseLedgers =
                 filter (\<lambda>l. str_includes (toLowerCase (PARENT l)) ''suspense'') ledgers
           in map (\<lambda>ledger. plainIssue (''LEDGER_SUSPENSE_'' @ NAME ledger) LedgerClassification
                               Critical (Some [NAME ledger]))
                (filter (\<lambda>l. CLOSINGBALANCE l \<noteq> 0) suspenseLedgers)
            @ concat (map misclassIssues ledgers)
            @ duplicateIssues ledgers))"

definition auditPartyMasters :: "Ledger list option \<Rightarrow> AuditIssue list" where
  "auditPartyMasters response =
     (case response of
        None \<Rightarrow> []
      | Some ledgers \<Rightarrow>
          (let debtors =
                 filter (\<lambda>l. str_includes (toLowerCase (PARENT l)) ''sundry debtor'') ledgers;
               owing = filter (\<lambda>l. \<bar>CLOSINGBALANCE l\<bar> > 0) debtors;
               debtorsWithoutGSTIN =
                 map NAME (filter (\<lambda>l. PARTYGSTIN l = [] \<and> GSTREGISTRATIONTYPE l = []) owing);
               debtorsWithoutState = map NAME (filter (\<lambda>l. LEDGERSTATENAME l = []) owing);
               creditors =
                 filter (\<lambda>l. str_includes (toLowerCase (PARENT l)) ''sundry creditor'') ledgers;
               owed = filter (\<lambda>l. \<bar>CLOSINGBALANCE l\<bar> > 0) creditors;
               creditorsWithoutGSTIN =
                 map NAME (filter (\<lambda>l. PARTYGSTIN l = [] \<and> GSTREGISTRATIONTYPE l = []) owed);
               creditorsWithInvalidGSTIN =
                 map (\<lambda>l. NAME l @ '' ('' @ PARTYGSTIN l @ '')'')
                   (filter (\<lambda>l. \<not> (PARTYGSTIN l = [] \<and> GSTREGISTRATIONTYPE l = [])
                                \<and> PARTYGSTIN l \<noteq> [] \<and> \<not> isValidGSTIN (PARTYGSTIN l)) owed)
           in (if length debtorsWithoutGSTIN > 0
               then [plainIssue ''PARTY_DEBTORS_NO_GSTIN'' PartyMaster High
                       (Some (take 15 debtorsWithoutGSTIN))]
               else [])
            @ (if length debtorsWithoutState > 0
               then [plainIssue ''PARTY_DEBTORS_NO_STATE'' PartyMaster Medium
                       (Some (take 15 debtorsWithoutState))]
               else [])
            @ (if length creditorsWithoutGSTIN > 0
               then [plainIssue ''PARTY_CREDITORS_NO_GSTIN'' PartyMaster High
                       (Some (take 15 creditorsWithoutGSTIN))]
               else [])
            @ (if length creditorsWithInvalidGSTIN > 0
               then [plainIssue ''PARTY_CREDITORS_INVALID_GSTIN'' PartyMaster Critical
                       (Some (take 15 creditorsWithInvalidGSTIN))]
               else [])))"

definition auditStockItems :: "StockItemData list option \<Rightarrow> AuditIssue list" where
  "auditStockItems response =
     (case response of
        None \<Rightarrow> []
      | Some items \<Rightarrow>
          (let itemsWithoutHSN = map stock_NAME (filter (\<lambda>i. HSNCODE i = []) items);
               itemsWithoutGSTRate = map stock_NAME (filter (\<lambda>i. GSTRATE i = None) items);
               itemsWithoutUnit = map stock_NAME (filter (\<lambda>i. BASEUNITS i = []) items)
           in (if length itemsWithoutHSN > 0
               then [plainIssue ''STOCK_NO_HSN'' StockItem High (Some (take 20 itemsWithoutHSN))]
               else [])
            @ (if length itemsWithoutGSTRate > 0
               then [plainIssue ''STOCK_NO_GST_RATE'' StockItem High
                       (Some (take 20 itemsWithoutGSTRate))]
               else [])
            @ (if length itemsWithoutUnit > 0
               then [plainIssue ''STOCK_NO_UNIT'' StockItem Medium
                       (Some (take 20 itemsWithoutUnit))]
               else [])))"

section \<open>Configuration audit: scores and the report\<close>

definition countSeverity :: "severity \<Rightarrow> AuditIssue list \<Rightarrow> nat" where
  \<comment> \<open>\<open>issues.filter(i => i.severity === s).length\<close>\<close>
  "countSeverity s is = length (filter (\<lambda>i. severity i = s) is)"

definition calculateCategoryScore :: "AuditIssue list \<Rightarrow> string \<Rightarrow> CategoryAudit" where
  "calculateCategoryScore is categoryName =
     (let critical = countSeverity Critical is;
          high = countSeverity High is;
          medium = countSeverity Medium is;
          low = countSeverity Low is;
          score0 = 100 - (int critical * 20) - (int high * 10) - (int medium * 5) - (int low * 2);
          score1 = max 0 score0
      in \<lparr>score = score1,
          status = (if score1 \<ge> 80 then Good
                    else if score1 \<ge> 50 then NeedsAttention
                    else CriticalStatus),
          issueCount = length is,
          summary = (if length is = 0 then categoryName @ '' configuration looks good!''
                     else ''Found '' @ showNat (length is) @ '' issue(s): ''
                          @ showNat critical @ '' critical, '' @ showNat high @ '' high, ''
                          @ showNat medium @ '' medium, '' @ showNat low @ '' low'')\<rparr>)"

text \<open>
  \<open>runFullAudit\<close>. The six checks do not depend on one another, so awaiting them together
  is modelled by evaluating each on its own reply. \<open>today\<close> is the date the clock gives
  for \<open>auditDate\<close>. No check of the model throws, so the \<open>catch\<close> branch of the source
  (\<open>Audit failed: ...\<close>) has no counterpart; the error that remains is the missing
  company name.
\<close>

definition runFullAudit :: "string \<Rightarrow> TallyReplies \<Rightarrow> string + AuditReport" where
  "runFullAudit today replies =
     (case configCompanyName replies of
        None \<Rightarrow> Inl ''No company selected. Please select a company first.''
      | Some cName \<Rightarrow>
          if cName = [] then Inl ''No company selected. Please select a company first.''
          else
            (let companyIssues = auditCompanyInfo cName (companyList replies);
                 gstIssues = auditGSTConfiguration (ledgersForGST replies);
                 tdsIssues = auditTDSConfiguration (ledgersForTDS replies);
                 ledgerIssues = auditLedgerClassification (ledgersForClassification replies);
                 partyIssues = auditPartyMasters (ledgersForParty replies);
                 stockIssues = auditStockItems (stockItemsReply replies);
                 allIssues = companyIssues @ gstIssues @ tdsIssues @ ledgerIssues @ partyIssues
                             @ stockIssues;
                 criticalCount = countSeverity Critical allIssues;
                 highCount = countSeverity High allIssues;
                 mediumCount = countSeverity Medium allIssues;
                 lowCount = countSeverity Low allIssues;
                 score0 = 100 - int criticalCount * 15 - int highCount * 8 - int mediumCount * 3
                          - int lowCount * 1
             in Inr \<lparr>companyName = cName,
                     auditDate = today,
                     overallScore = max 0 score0,
                     totalIssues = length allIssues,
                     criticalIssues = criticalCount,
                     highIssues = highCount,
                     mediumIssues = mediumCount,
                     lowIssues = lowCount,
                     categories =
                       \<lparr>gst = calculateCategoryScore gstIssues ''GST'',
                        tds = calculateCategoryScore tdsIssues ''TDS'',
                        ledgerClassification =
                          calculateCategoryScore ledgerIssues ''Ledger Classification'',
                        partyMaster = calculateCategoryScore partyIssues ''Party Master'',
                        stockItems = calculateCategoryScore stockIssues ''Stock Items'',
                        companyInfo = calculateCategoryScore companyIssues ''Company Info''\<rparr>,
                     issues = allIssues\<rparr>))"

section \<open>Dates\<close>

text \<open>
  The source turns a date text into a time with \<open>new Date(text).getTime()\<close>: the
  milliseconds since 1970-01-01 UTC, or \<open>NaN\<close> for a text that is no date. The functions
  below take this conversion as the parameter \<open>getTime\<close>, with \<open>None\<close> for \<open>NaN\<close>;
  every comparison with \<open>NaN\<close> is false.

  Only part of that conversion is fixed here. \<open>isoDate\<close> recognises the date-only texts
  \<open>YYYY-MM-DD\<close> of valid calendar dates, which the language reads as midnight UTC; these
  are the texts the bank book holds (\<open>parseDate\<close>) and the tools ask for.
  \<open>isoGetTime other\<close> is a conversion that reads those texts so and every other text as
  \<open>other\<close> does: what an engine makes of a text of another form, or of a day that is not in
  the calendar, stays a parameter. The scenarios take \<open>isoGetTime other\<close> for an arbitrary
  \<open>other\<close>.
\<close>

definition msPerDay :: int where
  \<comment> \<open>\<open>1000 * 60 * 60 * 24\<close>\<close>
  "msPerDay = 1000 * 60 * 60 * 24"

definition digitsToNat :: "string \<Rightarrow> nat" where
  "digitsToNat s = foldl (\<lambda>acc c. 10 * acc + (of_char c - 48)) 0 s"

definition isLeapYear :: "int \<Rightarrow> bool" where
  "isLeapYear y = (y mod 4 = 0 \<and> (y mod 100 \<noteq> 0 \<or> y mod 400 = 0))"

definition daysInMonth :: "int \<Rightarrow> int \<Rightarrow> int" where
  "daysInMonth y m =
     (if m = 2 then (if isLeapYear y then 29 else 28)
      else if m = 4 \<or> m = 6 \<or> m = 9 \<or> m = 11 then 30 else 31)"

definition daysFromCivil :: "int \<Rightarrow> int \<Rightarrow> int \<Rightarrow> int" where
  \<comment> \<open>days from 1970-01-01 to the given day of the proleptic Gregorian calendar\<close>
  "daysFromCivil y m d =
     (let y1 = (if m \<le> 2 then y - 1 else y);
          era = y1 div 400;
          yoe = y1 - era * 400;
          doy = (153 * (if m > 2 then m - 3 else m + 9) + 2) div 5 + d - 1;
          doe = yoe * 365 + yoe div 4 - yoe div 100 + doy
      in era * 146097 + doe - 719468)"

definition isoDate :: "string \<Rightarrow> int option" where
  \<comment> \<open>the time of a text \<open>YYYY-MM-DD\<close> that names a day of the calendar, \<open>None\<close> for any other text\<close>
  "isoDate s =
     (if length s = 10 \<and> s ! 4 = CHR ''-'' \<and> s ! 7 = CHR ''-''
         \<and> list_all isDigit (take 4 s) \<and> list_all isDigit (take 2 (drop 5 s))
         \<and> list_all isDigit (drop 8 s)
      then (let y = int (digitsToNat (take 4 s));
                m = int (digitsToNat (take 2 (drop 5 s)));
                d = int (digitsToNat (drop 8 s))
            in if 1 \<le> m \<and> m \<le> 12 \<and> 1 \<le> d \<and> d \<le> daysInMonth y m
               then Some (daysFromCivil y m d * msPerDay) else None)
      else None)"

definition isoGetTime :: "(string \<Rightarrow> int option) \<Rightarrow> string \<Rightarrow> int option" where
  "isoGetTime other s = (case isoDate s of Some t \<Rightarrow> Some t | None \<Rightarrow> other s)"

section \<open>Bank reconciliation: autoReconcile\<close>

text \<open>
  Amounts are JavaScript numbers; they are modelled as reals, so the rounding of binary
  floating point is not part of the model. \<open>a || b\<close> on numbers is \<open>a\<close> unless \<open>a\<close> is
  zero. \<open>toFixed2\<close> is \<open>x.toFixed(2)\<close> for \<open>|x| < 10^21\<close>: the sign, then the nearest
  number of hundredths (the larger one on a tie) written with two decimals.
\<close>

definition numOr :: "real \<Rightarrow> real \<Rightarrow> real" where
  "numOr a b = (if a \<noteq> 0 then a else b)"

definition toFixed2 :: "real \<Rightarrow> string" where
  "toFixed2 x =
     (let n = nat \<lfloor>\<bar>x\<bar> * 100 + 1 / 2\<rfloor>
      in (if x < 0 then ''-'' else []) @ showNat (n div 100) @ ''.''
         @ [digitChar (n div 10 mod 10), digitChar (n mod 10)])"

datatype txnStatus = Cleared | Uncleared | Reconciled

record BankTransaction =
  date :: string
  voucherNumber :: string
  chequeNumber :: "string option"
  instrumentDate :: "string option"
  narration :: string
  debit :: real
  credit :: real
  balance :: real
  isReconciled :: bool
  bankDate :: "string option"
  txnStatus :: txnStatus

record BankStatementEntry =
  stmt_date :: string
  stmt_description :: string
  stmt_chequeNumber :: "string option"
  stmt_debit :: real
  stmt_credit :: real
  stmt_balance :: real
  stmt_reference :: "string option"

text \<open>
  The source holds the transactions of the bank book as objects and tells them apart by
  reference (\<open>indexOf\<close>), also when two of them have equal fields. A book object is
  modelled as the transaction paired with its position in the bank book.
\<close>

type_synonym bookRef = "nat \<times> BankTransaction"

record MatchedPair =
  bookTransaction :: bookRef
  statementEntry :: BankStatementEntry
  matchType :: string
  daysDifference :: "real option"

record ReconSummary =
  totalMatched :: nat
  totalUnmatchedBooks :: nat
  totalUnmatchedStatement :: nat
  matchPercentage :: real

record Reconciliation =
  matched :: "MatchedPair list"
  unmatchedInBooks :: "bookRef list"
  unmatchedInStatement :: "BankStatementEntry list"
  amountMismatch :: "MatchedPair list"
  dateMismatch :: "MatchedPair list"
  recon_summary :: ReconSummary

text \<open>The variables the loop over the statement changes.\<close>

record ReconState =
  st_matched :: "MatchedPair list"
  st_unmatchedInStatement :: "BankStatementEntry list"
  st_totalMatched :: nat
  st_totalUnmatchedStatement :: nat
  bookTransactions :: "bookRef list"
  bookMap :: "string \<rightharpoonup> bookRef list"

definition createMatchKey :: "BankTransaction \<Rightarrow> string" where
  "createMatchKey txn =
     (let amount = numOr (debit txn) (credit txn)
      in (case chequeNumber txn of None \<Rightarrow> [] | Some c \<Rightarrow> c) @ ''_'' @ toFixed2 amount)"

definition addToBookMap :: "bookRef \<Rightarrow> (string \<rightharpoonup> bookRef list) \<Rightarrow> (string \<rightharpoonup> bookRef list)" where
  \<comment> \<open>\<open>if (!bookMap.has(key)) bookMap.set(key, []); bookMap.get(key).push(txn)\<close>\<close>
  "addToBookMap txn m =
     (let key = createMatchKey (snd txn)
      in (case m key of
            None \<Rightarrow> m(key \<mapsto> [txn])
          | Some txns \<Rightarrow> m(key \<mapsto> txns @ [txn])))"

fun indexOf :: "'a list \<Rightarrow> 'a \<Rightarrow> int" where
  "indexOf [] x = - 1"
| "indexOf (y # ys) x =
     (if y = x then 0 else (let r = indexOf ys x in if r = - 1 then - 1 else r + 1))"

definition splice1 :: "'a list \<Rightarrow> nat \<Rightarrow> 'a list" where
  \<comment> \<open>\<open>xs.splice(i, 1)\<close>: the list without its element at \<open>i\<close>\<close>
  "splice1 xs i = take i xs @ drop (i + 1) xs"

definition daysDiffOf :: "(string \<Rightarrow> int option) \<Rightarrow> BankStatementEntry \<Rightarrow> BankTransaction \<Rightarrow> real option" where
  \<comment> \<open>\<open>Math.abs((entryDate.getTime() - bookDate.getTime()) / (1000 * 60 * 60 * 24))\<close>\<close>
  "daysDiffOf getTime entry bookTxn =
     (case (getTime (stmt_date entry), getTime (date bookTxn)) of
        (Some e, Some b) \<Rightarrow> Some \<bar>real_of_int (e - b) / real_of_int msPerDay\<bar>
      | _ \<Rightarrow> None)"

function fuzzyScan ::
  "(string \<Rightarrow> int option) \<Rightarrow> BankStatementEntry \<Rightarrow> bookRef list \<Rightarrow> nat \<Rightarrow> (nat \<times> real) option" where
  "fuzzyScan getTime entry books i =
     (if i < length books
      then (let bookTxn = books ! i;
                amount = numOr (stmt_debit entry) (stmt_credit entry);
                bookAmount = numOr (debit (snd bookTxn)) (credit (snd bookTxn))
            in if \<bar>amount - bookAmount\<bar> < 1
               then (case daysDiffOf getTime entry (snd bookTxn) of
                       Some daysDiff \<Rightarrow>
                         if daysDiff \<le> 7 then Some (i, daysDiff)
                         else fuzzyScan getTime entry books (i + 1)
                     | None \<Rightarrow> fuzzyScan getTime entry books (i + 1))
               else fuzzyScan getTime entry books (i + 1))
      else None)"
  by pat_completeness auto
termination
  by (relation "measure (\<lambda>(getTime, entry, books, i). length books - i)") auto

declare fuzzyScan.simps [simp del]

definition exactPhase :: "BankStatementEntry \<Rightarrow> ReconState \<Rightarrow> ReconState option" where
  \<comment> \<open>the new state when the entry is matched by cheque number and amount, else \<open>None\<close>\<close>
  "exactPhase entry st =
     (let amount = numOr (stmt_debit entry) (stmt_credit entry)
      in (case stmt_chequeNumber entry of
            None \<Rightarrow> None
          | Some cheque \<Rightarrow>
              if cheque = [] then None
              else (let key = cheque @ ''_'' @ toFixed2 amount
                    in (case bookMap st key of
                          None \<Rightarrow> None
                        | Some [] \<Rightarrow> None
                        | Some (bookTxn # rest) \<Rightarrow>
                            (let idx = indexOf (bookTransactions st) bookTxn
                             in Some (st\<lparr>st_matched := st_matched st @
                                           [\<lparr>bookTransaction = bookTxn, statementEntry = entry,
                                             matchType = ''Exact'', daysDifference = None\<rparr>],
                                         st_totalMatched := st_totalMatched st + 1,
                                         bookMap := (bookMap st)(key \<mapsto> rest),
                                         bookTransactions :=
                                           (if idx > - 1 then splice1 (bookTransactions st) (nat idx)
                                            else bookTransactions st)\<rparr>))))))"

definition fuzzyPhase :: "(string \<Rightarrow> int option) \<Rightarrow> BankStatementEntry \<Rightarrow> ReconState \<Rightarrow> ReconState option" where
  \<comment> \<open>the new state when the entry is matched by amount and approximate date, else \<open>None\<close>\<close>
  "fuzzyPhase getTime entry st =
     (case fuzzyScan getTime entry (bookTransactions st) 0 of
        None \<Rightarrow> None
      | Some (i, daysDiff) \<Rightarrow>
          Some (st\<lparr>st_matched := st_matched st @
                     [\<lparr>bookTransaction = bookTransactions st ! i, statementEntry = entry,
                       matchType = (if daysDiff = 0 then ''Amount+Date''
                                    else ''Amount (Date Mismatch)''),
                       daysDifference = Some daysDiff\<rparr>],
                   st_totalMatched := st_totalMatched st + 1,
                   bookTransactions := splice1 (bookTransactions st) i\<rparr>))"

definition processEntry :: "(string \<Rightarrow> int option) \<Rightarrow> BankStatementEntry \<Rightarrow> ReconState \<Rightarrow> ReconState" where
  \<comment> \<open>the body of the loop over the statement entries\<close>
  "processEntry getTime entry st =
     (case exactPhase entry st of
        Some st1 \<Rightarrow> st1
      | None \<Rightarrow>
          (case fuzzyPhase getTime entry st of
             Some st1 \<Rightarrow> st1
           | None \<Rightarrow>
               st\<lparr>st_unmatchedInStatement := st_unmatchedInStatement st @ [entry],
                  st_totalUnmatchedStatement := st_totalUnmatchedStatement st + 1\<rparr>))"

definition initialState :: "BankTransaction list \<Rightarrow> ReconState" where
  "initialState bankBook =
     (let books = enumerate 0 bankBook
      in \<lparr>st_matched = [], st_unmatchedInStatement = [], st_totalMatched = 0,
          st_totalUnmatchedStatement = 0, bookTransactions = books,
          bookMap = fold addToBookMap books Map.empty\<rparr>)"

definition autoReconcile ::
  "(string \<Rightarrow> int option) \<Rightarrow> string + BankTransaction list \<Rightarrow> BankStatementEntry list
     \<Rightarrow> string + Reconciliation" where
  "autoReconcile getTime bankBookResult bankStatement =
     (case bankBookResult of
        Inl err \<Rightarrow> Inl err
      | Inr bankBook \<Rightarrow>
          (let st = fold (processEntry getTime) bankStatement (initialState bankBook);
               totalEntries = st_totalMatched st + length (bookTransactions st)
                              + st_totalUnmatchedStatement st
           in Inr \<lparr>matched = st_matched st,
                   unmatchedInBooks = bookTransactions st,
                   unmatchedInStatement = st_unmatchedInStatement st,
                   amountMismatch = [],
                   dateMismatch = [],
                   recon_summary =
                     \<lparr>totalMatched = st_totalMatched st,
                      totalUnmatchedBooks = length (bookTransactions st),
                      totalUnmatchedStatement = st_totalUnmatchedStatement st,
                      matchPercentage =
                        (if totalEntries > 0
                         then real (st_totalMatched st) / real totalEntries * 100
                         else 0)\<rparr>\<rparr>))"

section \<open>Aging of receivables and payables: getDebtorsAging, getCreditorsAging\<close>

text \<open>
  A ledger of the aging reply carries its bill allocations. \<open>bill_amount\<close> and
  \<open>aging_CLOSINGBALANCE\<close> are the numbers \<open>parseAmount\<close> returns; a bill without a bill
  date has the empty text there.
\<close>

record BillAllocation =
  bill_name :: string
  bill_billDate :: string
  bill_dueDate :: string
  bill_amount :: real


record BillDetail =
  billNumber :: string
  billDate :: string
  dueDate :: string
  amount :: real
  pending :: real
  agingDays :: "int option"

record Aged =
  partyName :: string
  current :: real
  days30 :: real
  days60 :: real
  days90 :: real
  days180 :: real
  above180 :: real
  total :: real
  billWiseDetails :: "BillDetail list"

definition agingDaysOf :: "(string \<Rightarrow> int option) \<Rightarrow> string \<Rightarrow> BillAllocation \<Rightarrow> int option" where
  \<comment> \<open>\<open>Math.floor((reconDate.getTime() - billDate.getTime()) / (1000 * 60 * 60 * 24))\<close>
      with \<open>billDate = new Date(bill.billDate || asOnDate)\<close>\<close>
  "agingDaysOf getTime asOnDate bill =
     (case (getTime asOnDate,
            getTime (if bill_billDate bill = [] then asOnDate else bill_billDate bill)) of
        (Some r, Some b) \<Rightarrow> Some ((r - b) div msPerDay)
      | _ \<Rightarrow> None)"

definition daysLe :: "int option \<Rightarrow> int \<Rightarrow> bool" where
  \<comment> \<open>\<open>agingDays <= n\<close>, false for \<open>NaN\<close>\<close>
  "daysLe d n = (case d of None \<Rightarrow> False | Some k \<Rightarrow> k \<le> n)"

definition addToBucket :: "int option \<Rightarrow> real \<Rightarrow> Aged \<Rightarrow> Aged" where
  "addToBucket days amt aged =
     (if daysLe days 0 then aged\<lparr>current := current aged + amt\<rparr>
      else if daysLe days 30 then aged\<lparr>days30 := days30 aged + amt\<rparr>
      else if daysLe days 60 then aged\<lparr>days60 := days60 aged + amt\<rparr>
      else if daysLe days 90 then aged\<lparr>days90 := days90 aged + amt\<rparr>
      else if daysLe days 180 then aged\<lparr>days180 := days180 aged + amt\<rparr>
      else aged\<lparr>above180 := above180 aged + amt\<rparr>)"

definition billDetail ::
  "(string \<Rightarrow> int option) \<Rightarrow> string \<Rightarrow> (real \<Rightarrow> real) \<Rightarrow> BillAllocation \<Rightarrow> BillDetail" where
  \<comment> \<open>the entry pushed to \<open>billWiseDetails\<close>; \<open>conv\<close> is the identity for debtors and
      \<open>Math.abs\<close> for creditors\<close>
  "billDetail getTime asOnDate conv bill =
     \<lparr>billNumber = bill_name bill, billDate = bill_billDate bill, dueDate = bill_dueDate bill,
      amount = conv (bill_amount bill), pending = conv (bill_amount bill),
      agingDays = agingDaysOf getTime asOnDate bill\<rparr>"

definition processBill ::
  "(string \<Rightarrow> int option) \<Rightarrow> string \<Rightarrow> (real \<Rightarrow> real) \<Rightarrow> BillAllocation \<Rightarrow> Aged \<Rightarrow> Aged" where
  \<comment> \<open>the body of the loop over the bills\<close>
  "processBill getTime asOnDate conv bill aged =
     (let days = agingDaysOf getTime asOnDate bill;
          amt = conv (bill_amount bill);
          aged1 = addToBucket days amt aged
      in aged1\<lparr>billWiseDetails := billWiseDetails aged1 @
                                      [billDetail getTime asOnDate conv bill]\<rparr>)"




section \<open>Reference statements and scenario data\<close>

text \<open>
  The score as the specification words it: 100 minus a weight per issue of each severity,
  clamped to the range from 0 to 100.
\<close>

definition spec_score :: "int \<Rightarrow> int \<Rightarrow> int \<Rightarrow> int \<Rightarrow> AuditIssue list \<Rightarrow> int" where
  "spec_score wc wh wm wl is =
     max 0 (min 100 (100 - wc * int (countSeverity Critical is) - wh * int (countSeverity High is)
                        - wm * int (countSeverity Medium is) - wl * int (countSeverity Low is)))"

text \<open>The issues of all six checks, in the order \<open>runFullAudit\<close> collects them.\<close>

definition allIssuesOf :: "string \<Rightarrow> TallyReplies \<Rightarrow> AuditIssue list" where
  "allIssuesOf cName replies =
     auditCompanyInfo cName (companyList replies)
     @ auditGSTConfiguration (ledgersForGST replies)
     @ auditTDSConfiguration (ledgersForTDS replies)
     @ auditLedgerClassification (ledgersForClassification replies)
     @ auditPartyMasters (ledgersForParty replies)
     @ auditStockItems (stockItemsReply replies)"

definition reportIssues :: "string + AuditReport \<Rightarrow> AuditIssue list" where
  "reportIssues result = (case result of Inl err \<Rightarrow> [] | Inr report \<Rightarrow> issues report)"

text \<open>
  Scenario data: a ledger with a name and a group and nothing else set, a company whose
  statutory details are all valid, and the replies of a system that answers every ledger
  request with the same ledgers and has no stock items.
\<close>

definition namedLedger :: "string \<Rightarrow> string \<Rightarrow> Ledger" where
  "namedLedger name parent =
     \<lparr>NAME = name, PARENT = parent, CLOSINGBALANCE = 0, GSTAPPLICABLE = [], ISTAXABLE = [],
      ISTDSAPPLICABLE = [], INCOMETAXNUMBER = [], TDSDEDUCTEETYPE = [], PARTYGSTIN = [],
      GSTREGISTRATIONTYPE = [], LEDGERSTATENAME = []\<rparr>"

definition scenarioCompany :: TallyCompany where
  "scenarioCompany =
     \<lparr>company_name = ''Acme Traders'', gstNumber = ''27AAPFU0939F1ZV'',
      panNumber = ''AAPFU0939F'', tanNumber = ''MUMA12345B'', state = ''Maharashtra''\<rparr>"

definition repliesWith :: "Ledger list \<Rightarrow> TallyReplies" where
  "repliesWith ledgers =
     \<lparr>configCompanyName = Some ''Acme Traders'', companyList = Some [scenarioCompany],
      ledgersForGST = Some ledgers, ledgersForTDS = Some ledgers,
      ledgersForClassification = Some ledgers, ledgersForParty = Some ledgers,
      stockItemsReply = Some []\<rparr>"

definition scenarioReplies :: TallyReplies where
  "scenarioReplies = repliesWith [namedLedger ''Output CGST'' ''Duties & Taxes'']"

text \<open>The five issues the GST check raises when only an Output CGST ledger exists.\<close>

definition fiveMissing :: "AuditIssue list" where
  "fiveMissing = map gstMissingIssue
     [(''OUTPUT_IGST'', ''Output IGST'', GST_OUTPUT_IGST),
      (''OUTPUT_SGST'', ''Output SGST'', GST_OUTPUT_SGST),
      (''INPUT_IGST'', ''Input IGST'', GST_INPUT_IGST),
      (''INPUT_CGST'', ''Input CGST'', GST_INPUT_CGST),
      (''INPUT_SGST'', ''Input SGST'', GST_INPUT_SGST)]"

text \<open>A ledger whose name matches two misclassification rules.\<close>

definition duplicateIdReplies :: TallyReplies where
  "duplicateIdReplies = repliesWith [namedLedger ''Staff Welfare and Telephone'' ''Direct Expenses'']"

text \<open>What \<open>calculateCategoryScore\<close> reports for a check that found nothing.\<close>

definition cleanCategory :: "string \<Rightarrow> CategoryAudit" where
  "cleanCategory categoryName =
     \<lparr>score = 100, status = Good, issueCount = 0,
      summary = categoryName @ '' configuration looks good!''\<rparr>"

text \<open>
  A company with all six GST ledgers, and the same company when the request of the GST check
  fails.
\<close>

definition sixGstLedgers :: "Ledger list" where
  "sixGstLedgers =
     map (\<lambda>n. namedLedger n ''Duties & Taxes'')
       [''Output IGST'', ''Output CGST'', ''Output SGST'',
        ''Input IGST'', ''Input CGST'', ''Input SGST'']"

definition cleanGstReplies :: TallyReplies where
  "cleanGstReplies = repliesWith sixGstLedgers"

definition gstFetchFailedReplies :: TallyReplies where
  "gstFetchFailedReplies = (repliesWith sixGstLedgers)\<lparr>ledgersForGST := None\<rparr>"

text \<open>
  The duplicate rule as the specification words it: the edit-distance similarity is 1 minus
  the edit distance divided by the longer length; a pair of names is a potential duplicate
  when the normalized forms are distinct and either one is a substring of the other, or
  the similarity exceeds 0.8 and both forms are longer than 5 characters.
\<close>

definition spec_similarity :: "'c list \<Rightarrow> 'c list \<Rightarrow> real" where
  "spec_similarity a b =
     1 - real (lev a b (length a) (length b)) / real (max (length a) (length b))"

definition spec_duplicate :: "string \<Rightarrow> string \<Rightarrow> bool" where
  "spec_duplicate x y =
     (let a = normalizedName x; b = normalizedName y
      in a \<noteq> b \<and> (sublist a b \<or> sublist b a
                  \<or> (spec_similarity a b > 8 / 10 \<and> length a > 5 \<and> length b > 5)))"

text \<open>The test \<open>isSimilarName\<close> makes, in closed form (lemma \<open>isSimilarName_similarForms\<close>).\<close>

definition similarForms :: "'c list \<Rightarrow> 'c list \<Rightarrow> bool" where
  "similarForms a b =
     (a \<noteq> b \<and> (((sublist a b \<or> sublist b a) \<and> 3 < length a \<and> 3 < length b)
               \<or> (spec_similarity a b > 8 / 10 \<and> 5 < max (length a) (length b))))"

text \<open>
  The duplicate rule in terms of the positions of the ledger list. The partners of the
  ledger at position \<open>i\<close> are the other positions whose normalized names pass the test
  of \<open>isSimilarName\<close> with the normalized name at \<open>i\<close>. The ledger at \<open>i\<close> is
  reported when it has a partner and its normalized name is not that of a member of a
  group reported for an earlier position; \<open>groupedBefore ledgers k\<close> is the set of the
  normalized names of the members of the groups reported for the positions before \<open>k\<close>.
\<close>

definition partnersOf :: "Ledger list \<Rightarrow> nat \<Rightarrow> nat list" where
  "partnersOf ledgers i =
     filter (\<lambda>j. j \<noteq> i \<and> isSimilarName (normalizedName (NAME (ledgers ! i)))
                                       (normalizedName (NAME (ledgers ! j))))
       [0..<length ledgers]"

fun groupedBefore :: "Ledger list \<Rightarrow> nat \<Rightarrow> string set" where
  "groupedBefore ledgers 0 = {}"
| "groupedBefore ledgers (Suc k) =
     (if partnersOf ledgers k \<noteq> []
         \<and> normalizedName (NAME (ledgers ! k)) \<notin> groupedBefore ledgers k
      then groupedBefore ledgers k
           \<union> (\<lambda>j. normalizedName (NAME (ledgers ! j))) ` set (k # partnersOf ledgers k)
      else groupedBefore ledgers k)"

definition reportedAt :: "Ledger list \<Rightarrow> nat \<Rightarrow> bool" where
  "reportedAt ledgers i =
     (partnersOf ledgers i \<noteq> []
      \<and> normalizedName (NAME (ledgers ! i)) \<notin> groupedBefore ledgers i)"

text \<open>Four debtors: two near-identical names, and a short name with a longer one around it.\<close>

definition duplicateScenario :: "Ledger list" where
  "duplicateScenario =
     map (\<lambda>n. namedLedger n ''Sundry Debtors'') [''Amazon'', ''Amazn'', ''ABC'', ''ABC D'']"

text \<open>
  Names of six letters, where two names pass the test exactly when they differ in one
  letter: a list in which the second and the fourth name differ in one letter, and a list in
  which the second and the third name each differ from the first in one letter and from
  each other in two.
\<close>

definition chainScenario :: "Ledger list" where
  "chainScenario =
     map (\<lambda>n. namedLedger n ''Sundry Debtors'') [''abcdef'', ''xbcdef'', ''xyzdef'', ''xycdef'']"

definition starScenario :: "Ledger list" where
  "starScenario =
     map (\<lambda>n. namedLedger n ''Sundry Debtors'') [''abcdef'', ''xbcdef'', ''aycdef'']"

text \<open>
  Scenario data for the reconciliation: a transaction of the bank book as \<open>getBankBook\<close>
  builds it (an absent cheque number, instrument date or bank date is the empty text), and
  a line of the bank statement.
\<close>

definition bookTxn :: "string \<Rightarrow> string \<Rightarrow> real \<Rightarrow> real \<Rightarrow> BankTransaction" where
  "bookTxn d cheque dr cr =
     \<lparr>date = d, voucherNumber = [], chequeNumber = Some cheque, instrumentDate = Some [],
      narration = [], debit = dr, credit = cr, balance = 0, isReconciled = False,
      bankDate = Some [], txnStatus = Uncleared\<rparr>"

definition stmtEntry :: "string \<Rightarrow> string option \<Rightarrow> real \<Rightarrow> real \<Rightarrow> BankStatementEntry" where
  "stmtEntry d cheque dr cr =
     \<lparr>stmt_date = d, stmt_description = [], stmt_chequeNumber = cheque, stmt_debit = dr,
      stmt_credit = cr, stmt_balance = 0, stmt_reference = None\<rparr>"

text \<open>
  The candidate test of the fuzzy phase as the specification words it: the amounts differ
  by less than 1.00 and the dates by at most 7 days.
\<close>

definition spec_fuzzyCandidate ::
  "(string \<Rightarrow> int option) \<Rightarrow> BankStatementEntry \<Rightarrow> bookRef \<Rightarrow> bool" where
  "spec_fuzzyCandidate getTime entry b =
     (\<bar>numOr (stmt_debit entry) (stmt_credit entry) - numOr (debit (snd b)) (credit (snd b))\<bar> < 1
      \<and> (case daysDiffOf getTime entry (snd b) of None \<Rightarrow> False | Some d \<Rightarrow> d \<le> 7))"

text \<open>
  The state after an entry found no partner, after it was paired in the fuzzy phase with the
  book record at position \<open>i\<close> at a distance of \<open>d\<close> days, and after it was paired
  in the exact phase with the book record \<open>b\<close> found under \<open>key\<close>.
\<close>

definition unmatchedState :: "BankStatementEntry \<Rightarrow> ReconState \<Rightarrow> ReconState" where
  "unmatchedState entry st =
     st\<lparr>st_unmatchedInStatement := st_unmatchedInStatement st @ [entry],
        st_totalUnmatchedStatement := st_totalUnmatchedStatement st + 1\<rparr>"

definition fuzzyMatchedState :: "BankStatementEntry \<Rightarrow> nat \<Rightarrow> real \<Rightarrow> ReconState \<Rightarrow> ReconState" where
  "fuzzyMatchedState entry i d st =
     st\<lparr>st_matched := st_matched st @
          [\<lparr>bookTransaction = bookTransactions st ! i, statementEntry = entry,
            matchType = (if d = 0 then ''Amount+Date'' else ''Amount (Date Mismatch)''),
            daysDifference = Some d\<rparr>],
        st_totalMatched := st_totalMatched st + 1,
        bookTransactions := take i (bookTransactions st) @ drop (Suc i) (bookTransactions st)\<rparr>"

definition exactMatchedState ::
  "BankStatementEntry \<Rightarrow> string \<Rightarrow> bookRef \<Rightarrow> bookRef list \<Rightarrow> ReconState \<Rightarrow> ReconState" where
  "exactMatchedState entry key b rest st =
     st\<lparr>st_matched := st_matched st @
          [\<lparr>bookTransaction = b, statementEntry = entry, matchType = ''Exact'',
            daysDifference = None\<rparr>],
        st_totalMatched := st_totalMatched st + 1,
        bookMap := (bookMap st)(key \<mapsto> rest),
        bookTransactions := remove1 b (bookTransactions st)\<rparr>"

text \<open>The book records that no pair of the state holds, in the order of the bank book.\<close>

definition stillUnmatched :: "BankTransaction list \<Rightarrow> ReconState \<Rightarrow> bookRef list" where
  "stillUnmatched bankBook st =
     filter (\<lambda>b. b \<notin> bookTransaction ` set (st_matched st)) (enumerate 0 bankBook)"




definition chequeBook :: BankTransaction where
  "chequeBook = bookTxn ''2024-01-10'' ''CHQ100'' 0 5000"

definition chequeEntry :: BankStatementEntry where
  "chequeEntry = stmtEntry ''2024-01-12'' (Some ''CHQ100'') 5000 0"

definition plainEntry :: BankStatementEntry where
  "plainEntry = stmtEntry ''2024-01-11'' None 5000 0"









section \<open>Properties of the name similarity\<close>

lemma includes_sublist: "str_includes s p \<longleftrightarrow> sublist p s"
  by (induction s) (auto simp: sublist_Cons_right)

lemma lev_i_0 [simp]: "lev s1 s2 i 0 = i"
  by (cases i) simp_all

lemma lev_sym: "lev s1 s2 i j = lev s2 s1 j i"
proof (induction s1 s2 i j rule: lev.induct)
  case (1 s1 s2 j)
  show ?case by simp
next
  case (2 s1 s2 i)
  show ?case by simp
next
  case (3 s1 s2 i j)
  then show ?case by (auto simp: min.commute min.left_commute)
qed

lemma wfTable_setCell:
  "wfTable m n dp \<Longrightarrow> i \<le> m \<Longrightarrow> wfTable m n (setCell dp i j v)"
  unfolding wfTable_def setCell_def
  by (auto dest!: subsetD [OF set_update_subset_insert])

lemma nth_setCell:
  "wfTable m n dp \<Longrightarrow> i \<le> m \<Longrightarrow> j \<le> n \<Longrightarrow>
   setCell dp i j v ! a ! b = (if a = i \<and> b = j then v else dp ! a ! b)"
  by (auto simp: wfTable_def setCell_def nth_list_update)

lemma wfTable_newTable: "wfTable m n (newTable m n)"
  by (simp add: wfTable_def newTable_def)

lemma initColumn_aux:
  "wfTable m n dp \<Longrightarrow> k \<le> m + 1 \<Longrightarrow>
   wfTable m n (fold (\<lambda>i dp. setCell dp i 0 i) [0..<k] dp) \<and>
   (\<forall>a b. fold (\<lambda>i dp. setCell dp i 0 i) [0..<k] dp ! a ! b
          = (if a < k \<and> b = 0 then a else dp ! a ! b))"
proof (induction k)
  case 0
  then show ?case by simp
next
  case (Suc k)
  let ?R = "fold (\<lambda>i dp. setCell dp i 0 i) [0..<k] dp"
  from Suc have wf: "wfTable m n ?R"
    and vals: "\<And>a b. ?R ! a ! b = (if a < k \<and> b = 0 then a else dp ! a ! b)"
    by simp_all
  from Suc.prems have k: "k \<le> m" by simp
  show ?case
    using wfTable_setCell [OF wf k] nth_setCell [OF wf k, of 0] vals
    by (auto simp: less_Suc_eq)
qed

lemma initRow_aux:
  "wfTable m n dp \<Longrightarrow> k \<le> n + 1 \<Longrightarrow>
   wfTable m n (fold (\<lambda>j dp. setCell dp 0 j j) [0..<k] dp) \<and>
   (\<forall>a b. fold (\<lambda>j dp. setCell dp 0 j j) [0..<k] dp ! a ! b
          = (if a = 0 \<and> b < k then b else dp ! a ! b))"
proof (induction k)
  case 0
  then show ?case by simp
next
  case (Suc k)
  let ?R = "fold (\<lambda>j dp. setCell dp 0 j j) [0..<k] dp"
  from Suc have wf: "wfTable m n ?R"
    and vals: "\<And>a b. ?R ! a ! b = (if a = 0 \<and> b < k then b else dp ! a ! b)"
    by simp_all
  from Suc.prems have k: "k \<le> n" by simp
  show ?case
    using wfTable_setCell [OF wf, of 0] nth_setCell [OF wf _ k, of 0] vals
    by (auto simp: less_Suc_eq)
qed

lemma initialised_init: "initialised m n (initRow n (initColumn m (newTable m n)))"
  using initColumn_aux [OF wfTable_newTable, of "m + 1" m n]
    initRow_aux [of m n "initColumn m (newTable m n)" "n + 1"]
  by (auto simp: initialised_def initColumn_def initRow_def)

lemma fillRow_aux:
  assumes wf: "wfTable m n dp" and i: "1 \<le> i" "i \<le> m"
    and prev: "\<forall>b \<le> n. dp ! (i - 1) ! b = lev s1 s2 (i - 1) b"
    and col0: "dp ! i ! 0 = i"
  shows "k \<le> n \<Longrightarrow>
     wfTable m n (fold (cellStep s1 s2 i) [1..<k + 1] dp) \<and>
     (\<forall>a b. a \<noteq> i \<or> b = 0 \<or> k < b \<longrightarrow>
            fold (cellStep s1 s2 i) [1..<k + 1] dp ! a ! b = dp ! a ! b) \<and>
     (\<forall>b. 1 \<le> b \<and> b \<le> k \<longrightarrow>
            fold (cellStep s1 s2 i) [1..<k + 1] dp ! i ! b = lev s1 s2 i b)"
proof (induction k)
  case 0
  then show ?case using wf by simp
next
  case (Suc k)
  let ?R = "fold (cellStep s1 s2 i) [1..<k + 1] dp"
  from Suc.prems have k: "Suc k \<le> n" .
  then have "k \<le> n" by simp
  note IH = Suc.IH [OF this]
  have wfR: "wfTable m n ?R"
    using IH by (rule conjunct1)
  have same: "?R ! a ! b = dp ! a ! b" if "a \<noteq> i \<or> b = 0 \<or> k < b" for a b
    using IH that by blast
  have filled: "?R ! i ! b = lev s1 s2 i b" if "1 \<le> b" "b \<le> k" for b
    using IH that by blast
  obtain i' where i': "i = Suc i'" using i by (cases i) auto
  have up: "?R ! (i - 1) ! Suc k = lev s1 s2 i' (Suc k)"
    using same [of "i - 1" "Suc k"] prev k i' by simp
  have diag: "?R ! (i - 1) ! k = lev s1 s2 i' k"
    using same [of "i - 1" k] prev k i' by simp
  have left: "?R ! i ! k = lev s1 s2 i k"
  proof (cases k)
    case 0
    then show ?thesis using same [of i 0] col0 by simp
  next
    case (Suc k')
    then show ?thesis using filled [of k] by simp
  qed
  have new: "cellStep s1 s2 i (Suc k) ?R = setCell ?R i (Suc k) (lev s1 s2 i (Suc k))"
    using up diag left by (simp add: cellStep_def i')
  have fold_eq: "fold (cellStep s1 s2 i) [1..<Suc k + 1] dp = setCell ?R i (Suc k) (lev s1 s2 i (Suc k))"
    using new by simp
  show ?case
    unfolding fold_eq
    using wfTable_setCell [OF wfR i(2)] nth_setCell [OF wfR i(2) k] same filled
    by (auto simp: le_Suc_eq)
qed

lemma fillTable_aux:
  assumes init: "initialised m n dp"
  shows "k \<le> m \<Longrightarrow>
     wfTable m n (fold (fillRow s1 s2 n) [1..<k + 1] dp) \<and>
     (\<forall>a b. k < a \<or> b = 0 \<longrightarrow> fold (fillRow s1 s2 n) [1..<k + 1] dp ! a ! b = dp ! a ! b) \<and>
     (\<forall>a \<le> k. \<forall>b \<le> n. fold (fillRow s1 s2 n) [1..<k + 1] dp ! a ! b = lev s1 s2 a b)"
proof (induction k)
  case 0
  then show ?case using init by (simp add: initialised_def)
next
  case (Suc k)
  let ?R = "fold (fillRow s1 s2 n) [1..<k + 1] dp"
  from Suc.prems have k: "Suc k \<le> m" .
  then have "k \<le> m" by simp
  note IH = Suc.IH [OF this]
  have wfR: "wfTable m n ?R"
    using IH by (rule conjunct1)
  have same: "?R ! a ! b = dp ! a ! b" if "k < a \<or> b = 0" for a b
    using IH that by blast
  have filled: "?R ! a ! b = lev s1 s2 a b" if "a \<le> k" "b \<le> n" for a b
    using IH that by blast
  have col0: "?R ! Suc k ! 0 = Suc k"
    using same [of "Suc k" 0] init k by (simp add: initialised_def)
  have prev: "\<forall>b \<le> n. ?R ! (Suc k - 1) ! b = lev s1 s2 (Suc k - 1) b"
    using filled by simp
  note row = fillRow_aux [OF wfR _ k prev col0, of n, simplified]
  have fold_eq: "fold (fillRow s1 s2 n) [1..<Suc k + 1] dp = fold (cellStep s1 s2 (Suc k)) [1..<n + 1] ?R"
    by (simp add: fillRow_def)
  show ?case
    unfolding fold_eq
  proof (intro conjI allI impI)
    show "wfTable m n (fold (cellStep s1 s2 (Suc k)) [1..<n + 1] ?R)"
      using row by simp
  next
    fix a b :: nat assume "Suc k < a \<or> b = 0"
    then show "fold (cellStep s1 s2 (Suc k)) [1..<n + 1] ?R ! a ! b = dp ! a ! b"
      using row same [of a b] by auto
  next
    fix a b :: nat assume ab: "a \<le> Suc k" "b \<le> n"
    show "fold (cellStep s1 s2 (Suc k)) [1..<n + 1] ?R ! a ! b = lev s1 s2 a b"
    proof (cases "a = Suc k")
      case True
      show ?thesis
      proof (cases "b = 0")
        case True
        with \<open>a = Suc k\<close> row col0 show ?thesis by simp
      next
        case False
        with \<open>a = Suc k\<close> ab row show ?thesis by simp
      qed
    next
      case False
      with ab have "a \<le> k" by simp
      with False ab row filled [of a b] show ?thesis by simp
    qed
  qed
qed

lemma levenshteinDistance_lev:
  "levenshteinDistance s1 s2 = lev s1 s2 (length s1) (length s2)"
  using fillTable_aux [OF initialised_init, of "length s1" "length s1" "length s2" s1 s2]
  by (simp add: levenshteinDistance_def fillTable_def)

lemma levenshteinDistance_sym: "levenshteinDistance s1 s2 = levenshteinDistance s2 s1"
  by (simp add: levenshteinDistance_lev lev_sym [of s1 s2])

lemma isSimilarName_sym: "isSimilarName a b = isSimilarName b a"
  by (auto simp: isSimilarName_def Let_def levenshteinDistance_sym [of a b] max.commute)

text \<open>
  C9. The name-similarity predicate is a total function of its two arguments (a HOL
  function defined without recursion of its own over a table filled by bounded loops),
  it is symmetric, and no name is similar to itself.
\<close>

theorem isSimilarName_symmetric_irreflexive:
  "isSimilarName a b = isSimilarName b a \<and> \<not> isSimilarName a a"
proof
  show "isSimilarName a b = isSimilarName b a"
    by (rule isSimilarName_sym)
  show "\<not> isSimilarName a a"
    by (simp add: isSimilarName_def)
qed

section \<open>Properties of the audit scores\<close>


lemma runFullAudit_Inr:
  assumes "runFullAudit today replies = Inr report"
  shows "configCompanyName replies = Some (companyName report)"
    and "issues report = allIssuesOf (companyName report) replies"
    and "overallScore report = spec_score 15 8 3 1 (issues report)"
    and "gst (categories report)
          = calculateCategoryScore (auditGSTConfiguration (ledgersForGST replies)) ''GST''"
    and "tds (categories report)
          = calculateCategoryScore (auditTDSConfiguration (ledgersForTDS replies)) ''TDS''"
    and "ledgerClassification (categories report)
          = calculateCategoryScore
              (auditLedgerClassification (ledgersForClassification replies))
              ''Ledger Classification''"
    and "partyMaster (categories report)
          = calculateCategoryScore (auditPartyMasters (ledgersForParty replies)) ''Party Master''"
    and "stockItems (categories report)
          = calculateCategoryScore (auditStockItems (stockItemsReply replies)) ''Stock Items''"
    and "companyInfo (categories report)
          = calculateCategoryScore
              (auditCompanyInfo (companyName report) (companyList replies)) ''Company Info''"
  using assms
  by (auto simp: runFullAudit_def Let_def spec_score_def allIssuesOf_def
           split: option.splits if_splits)

lemma runFullAudit_returns:
  assumes "configCompanyName replies = Some c" "c \<noteq> []"
  shows "\<exists>report. runFullAudit today replies = Inr report \<and> companyName report = c"
  using assms by (simp add: runFullAudit_def Let_def)



section \<open>Properties of the audit checks\<close>

lemma lower_output_cgst: "toLowerCase ''Output CGST'' = ''output cgst''"
  by code_simp

lemma lower_duties_taxes: "toLowerCase ''Duties & Taxes'' = ''duties & taxes''"
  by code_simp

lemma gst_of_output_cgst:
  assumes "NAME l = ''Output CGST''" "PARENT l = ''Duties & Taxes''"
  shows "auditGSTConfiguration (Some [l]) = fiveMissing"
  using assms
  by (simp add: auditGSTConfiguration_def underDutiesOrTaxes_def requiredGSTLedgers_def
      matchesPatterns_def gstNamingIssues_def lower_output_cgst lower_duties_taxes Let_def
      GST_OUTPUT_IGST_def GST_OUTPUT_CGST_def GST_OUTPUT_SGST_def GST_INPUT_IGST_def
      GST_INPUT_CGST_def GST_INPUT_SGST_def fiveMissing_def)

lemma tds_of_output_cgst:
  assumes "NAME l = ''Output CGST''" "PARENT l = ''Duties & Taxes''"
  shows "auditTDSConfiguration (Some [l]) = map tdsMissingIssue requiredTDSSections"
  using assms
  by (simp add: auditTDSConfiguration_def underDutiesOrTaxes_def requiredTDSSections_def
      matchesPatterns_def lower_output_cgst lower_duties_taxes Let_def)

lemma classification_of_output_cgst:
  assumes "NAME l = ''Output CGST''" "PARENT l = ''Duties & Taxes''"
  shows "auditLedgerClassification (Some [l]) = []"
  using assms
  by (simp add: auditLedgerClassification_def misclassIssues_def misclassificationRules_def
      duplicateIssues_def duplicateGroups_def duplicateStep_def similarTo_def ledgerNames_def
      lower_output_cgst lower_duties_taxes Let_def)

lemma party_of_output_cgst:
  assumes "NAME l = ''Output CGST''" "PARENT l = ''Duties & Taxes''"
  shows "auditPartyMasters (Some [l]) = []"
  using assms
  by (simp add: auditPartyMasters_def lower_duties_taxes Let_def)

lemma company_issues_category:
  "i \<in> set (auditCompanyInfo c cl) \<Longrightarrow> category i = CompanyInfo"
  by (auto simp: auditCompanyInfo_def plainIssue_def split: option.splits if_splits)

lemma stock_issues_not_critical:
  "i \<in> set (auditStockItems r) \<Longrightarrow> severity i \<noteq> Critical"
  by (auto simp: auditStockItems_def plainIssue_def Let_def split: option.splits if_splits)

lemma tds_missing_severity: "severity (tdsMissingIssue r) = High"
  by (cases r) (simp add: tdsMissingIssue_def fixableIssue_def)

lemma fiveMissing_all:
  "filter (\<lambda>i. severity i = Critical \<and> category i \<noteq> CompanyInfo) fiveMissing = fiveMissing"
  by (simp add: fiveMissing_def gstMissingIssue_def fixableIssue_def)

text \<open>
  C7 (amended). For a snapshot whose only ledger is Output CGST under Duties & Taxes, the
  full audit returns a report whose Critical issues outside the company-profile check are
  exactly five: GST_OUTPUT_IGST_MISSING, GST_OUTPUT_SGST_MISSING, GST_INPUT_IGST_MISSING,
  GST_INPUT_CGST_MISSING and GST_INPUT_SGST_MISSING, in this order, each of category GST and
  auto-fixable. The check requires all six GST ledgers, the three input ledgers included.
\<close>

theorem output_cgst_only_five_critical:
  assumes "NAME l = ''Output CGST''" and "PARENT l = ''Duties & Taxes''"
    and "configCompanyName replies = Some c" and "c \<noteq> []"
    and "ledgersForGST replies = Some [l]" and "ledgersForTDS replies = Some [l]"
    and "ledgersForClassification replies = Some [l]" and "ledgersForParty replies = Some [l]"
  shows "\<exists>report. runFullAudit today replies = Inr report
     \<and> filter (\<lambda>i. severity i = Critical \<and> category i \<noteq> CompanyInfo) (issues report)
         = fiveMissing
     \<and> map issueId fiveMissing
         = [''GST_OUTPUT_IGST_MISSING'', ''GST_OUTPUT_SGST_MISSING'', ''GST_INPUT_IGST_MISSING'',
            ''GST_INPUT_CGST_MISSING'', ''GST_INPUT_SGST_MISSING'']
     \<and> list_all (\<lambda>i. severity i = Critical \<and> category i = GST \<and> autoFixable i) fiveMissing"
proof -
  obtain report where r: "runFullAudit today replies = Inr report" and c: "companyName report = c"
    using runFullAudit_returns [OF assms(3,4)] by blast
  let ?P = "\<lambda>i. severity i = Critical \<and> category i \<noteq> CompanyInfo"
  have 1: "filter ?P (auditCompanyInfo c (companyList replies)) = []"
    by (auto simp: filter_empty_conv dest: company_issues_category)
  have 2: "filter ?P (map tdsMissingIssue requiredTDSSections) = []"
    by (simp add: filter_empty_conv tds_missing_severity)
  have 3: "filter ?P (auditStockItems (stockItemsReply replies)) = []"
    by (auto simp: filter_empty_conv dest: stock_issues_not_critical)
  have "issues report = allIssuesOf c replies"
    using runFullAudit_Inr(2) [OF r] c by simp
  then have f1: "filter ?P (issues report) = fiveMissing"
    using assms(5-8) 1 2 3
    by (simp add: allIssuesOf_def gst_of_output_cgst [OF assms(1,2)]
        tds_of_output_cgst [OF assms(1,2)] classification_of_output_cgst [OF assms(1,2)]
        party_of_output_cgst [OF assms(1,2)] fiveMissing_all)
  have f2: "map issueId fiveMissing
         = [''GST_OUTPUT_IGST_MISSING'', ''GST_OUTPUT_SGST_MISSING'', ''GST_INPUT_IGST_MISSING'',
            ''GST_INPUT_CGST_MISSING'', ''GST_INPUT_SGST_MISSING'']"
    by (simp add: fiveMissing_def gstMissingIssue_def fixableIssue_def)
  have f3: "list_all (\<lambda>i. severity i = Critical \<and> category i = GST \<and> autoFixable i) fiveMissing"
    by (simp add: fiveMissing_def gstMissingIssue_def fixableIssue_def)
  show ?thesis
    by (intro exI [of _ report] conjI) (rule r f1 f2 f3)+
qed

text \<open>
  The amended statement at the scenario: the company of the scenario data and the ledger with
  no other field set.
\<close>

theorem output_cgst_only_five_critical_witness:
  "\<exists>report. runFullAudit ''2024-03-31'' scenarioReplies = Inr report
     \<and> filter (\<lambda>i. severity i = Critical \<and> category i \<noteq> CompanyInfo) (issues report)
         = fiveMissing
     \<and> length fiveMissing = 5"
proof -
  let ?l = "namedLedger ''Output CGST'' ''Duties & Taxes''"
  have "NAME ?l = ''Output CGST''" and "PARENT ?l = ''Duties & Taxes''"
    by (simp_all add: namedLedger_def)
  moreover have "configCompanyName scenarioReplies = Some ''Acme Traders''"
    and "''Acme Traders'' \<noteq> []"
    and "ledgersForGST scenarioReplies = Some [?l]"
    and "ledgersForTDS scenarioReplies = Some [?l]"
    and "ledgersForClassification scenarioReplies = Some [?l]"
    and "ledgersForParty scenarioReplies = Some [?l]"
    by (simp_all add: scenarioReplies_def repliesWith_def)
  ultimately have "\<exists>report. runFullAudit ''2024-03-31'' scenarioReplies = Inr report
     \<and> filter (\<lambda>i. severity i = Critical \<and> category i \<noteq> CompanyInfo) (issues report)
         = fiveMissing
     \<and> map issueId fiveMissing
         = [''GST_OUTPUT_IGST_MISSING'', ''GST_OUTPUT_SGST_MISSING'', ''GST_INPUT_IGST_MISSING'',
            ''GST_INPUT_CGST_MISSING'', ''GST_INPUT_SGST_MISSING'']
     \<and> list_all (\<lambda>i. severity i = Critical \<and> category i = GST \<and> autoFixable i) fiveMissing"
    by (rule output_cgst_only_five_critical)
  then obtain report where r: "runFullAudit ''2024-03-31'' scenarioReplies = Inr report"
    and f: "filter (\<lambda>i. severity i = Critical \<and> category i \<noteq> CompanyInfo) (issues report)
           = fiveMissing"
    by (elim exE conjE)
  have n: "length fiveMissing = 5"
    by (simp add: fiveMissing_def)
  show ?thesis
    by (intro exI [of _ report] conjI) (rule r f n)+
qed

text \<open>
  C7 as stated fails: with a company profile that raises no issue, the audit of the scenario
  emits five Critical issues, not two.
\<close>

theorem output_cgst_only_counterexample:
  "map issueId (filter (\<lambda>i. severity i = Critical)
                  (reportIssues (runFullAudit ''2024-03-31'' scenarioReplies)))
     = [''GST_OUTPUT_IGST_MISSING'', ''GST_OUTPUT_SGST_MISSING'', ''GST_INPUT_IGST_MISSING'',
        ''GST_INPUT_CGST_MISSING'', ''GST_INPUT_SGST_MISSING'']"
  by code_simp

text \<open>
  C6, the code at a failing input: a ledger Staff Welfare and Telephone under Direct Expenses
  matches two misclassification rules (the loop over the rules has no \<open>break\<close>, unlike
  the loop over the TDS sections), and the audit emits two issues with the same id.
\<close>

theorem misclass_ids_repeat:
  "map issueId (reportIssues (runFullAudit ''2024-03-31'' duplicateIdReplies))
     = [''GST_OUTPUT_IGST_MISSING'', ''GST_OUTPUT_CGST_MISSING'', ''GST_OUTPUT_SGST_MISSING'',
        ''GST_INPUT_IGST_MISSING'', ''GST_INPUT_CGST_MISSING'', ''GST_INPUT_SGST_MISSING'',
        ''TDS_194C_MISSING'', ''TDS_194J_MISSING'', ''TDS_194H_MISSING'', ''TDS_194I_MISSING'',
        ''TDS_194A_MISSING'',
        ''LEDGER_MISCLASS_Staff Welfare and Telephone'',
        ''LEDGER_MISCLASS_Staff Welfare and Telephone'']
   \<and> \<not> distinct (map issueId (reportIssues (runFullAudit ''2024-03-31'' duplicateIdReplies)))"
proof -
  have ids: "map issueId (reportIssues (runFullAudit ''2024-03-31'' duplicateIdReplies))
     = [''GST_OUTPUT_IGST_MISSING'', ''GST_OUTPUT_CGST_MISSING'', ''GST_OUTPUT_SGST_MISSING'',
        ''GST_INPUT_IGST_MISSING'', ''GST_INPUT_CGST_MISSING'', ''GST_INPUT_SGST_MISSING'',
        ''TDS_194C_MISSING'', ''TDS_194J_MISSING'', ''TDS_194H_MISSING'', ''TDS_194I_MISSING'',
        ''TDS_194A_MISSING'',
        ''LEDGER_MISCLASS_Staff Welfare and Telephone'',
        ''LEDGER_MISCLASS_Staff Welfare and Telephone'']"
    by code_simp
  show ?thesis
    unfolding ids by simp
qed

lemma no_issues_clean: "calculateCategoryScore [] n = cleanCategory n"
  by (simp add: calculateCategoryScore_def cleanCategory_def countSeverity_def)

text \<open>
  C10 (amended). When a company is selected the audit always returns a report, whichever
  requests fail; every category is computed from the reply to its own request alone. A
  category whose request failed has no issues and is reported exactly like a category whose
  check found nothing: score 100, status Good, issue count 0 and the summary
  "... configuration looks good!". The report has no field that tells the two apart.
\<close>

theorem failed_fetch_reported_as_clean:
  assumes "configCompanyName replies = Some c" and "c \<noteq> []"
  shows "\<exists>report. runFullAudit today replies = Inr report
     \<and> issues report = allIssuesOf c replies
     \<and> gst (categories report)
         = calculateCategoryScore (auditGSTConfiguration (ledgersForGST replies)) ''GST''
     \<and> tds (categories report)
         = calculateCategoryScore (auditTDSConfiguration (ledgersForTDS replies)) ''TDS''
     \<and> ledgerClassification (categories report)
         = calculateCategoryScore (auditLedgerClassification (ledgersForClassification replies))
             ''Ledger Classification''
     \<and> partyMaster (categories report)
         = calculateCategoryScore (auditPartyMasters (ledgersForParty replies)) ''Party Master''
     \<and> stockItems (categories report)
         = calculateCategoryScore (auditStockItems (stockItemsReply replies)) ''Stock Items''
     \<and> companyInfo (categories report)
         = calculateCategoryScore (auditCompanyInfo c (companyList replies)) ''Company Info''
     \<and> (ledgersForGST replies = None
         \<longrightarrow> auditGSTConfiguration (ledgersForGST replies) = []
             \<and> gst (categories report) = cleanCategory ''GST'')
     \<and> (ledgersForTDS replies = None
         \<longrightarrow> auditTDSConfiguration (ledgersForTDS replies) = []
             \<and> tds (categories report) = cleanCategory ''TDS'')
     \<and> (ledgersForClassification replies = None
         \<longrightarrow> auditLedgerClassification (ledgersForClassification replies) = []
             \<and> ledgerClassification (categories report) = cleanCategory ''Ledger Classification'')
     \<and> (ledgersForParty replies = None
         \<longrightarrow> auditPartyMasters (ledgersForParty replies) = []
             \<and> partyMaster (categories report) = cleanCategory ''Party Master'')
     \<and> (stockItemsReply replies = None
         \<longrightarrow> auditStockItems (stockItemsReply replies) = []
             \<and> stockItems (categories report) = cleanCategory ''Stock Items'')
     \<and> (companyList replies = None
         \<longrightarrow> auditCompanyInfo c (companyList replies) = []
             \<and> companyInfo (categories report) = cleanCategory ''Company Info'')"
proof -
  obtain report where r: "runFullAudit today replies = Inr report" and c: "companyName report = c"
    using runFullAudit_returns [OF assms, where today = today] by (elim exE conjE)
  note parts = runFullAudit_Inr [OF r, unfolded c]
  have none: "auditGSTConfiguration None = []" "auditTDSConfiguration None = []"
    "auditLedgerClassification None = []" "auditPartyMasters None = []"
    "auditStockItems None = []" "auditCompanyInfo c None = []"
    by (simp_all add: auditGSTConfiguration_def auditTDSConfiguration_def
        auditLedgerClassification_def auditPartyMasters_def auditStockItems_def
        auditCompanyInfo_def)
  show ?thesis
    by (rule exI [of _ report]) (simp add: r parts none no_issues_clean)
qed

text \<open>
  The amended statement where the request of the GST check fails and the other requests
  succeed: the GST category is reported clean, the TDS category still has its five issues.
\<close>

theorem failed_fetch_reported_as_clean_witness:
  "\<exists>report. runFullAudit ''2024-03-31'' gstFetchFailedReplies = Inr report
     \<and> ledgersForGST gstFetchFailedReplies = None
     \<and> gst (categories report) = cleanCategory ''GST''
     \<and> issueCount (tds (categories report)) = 5
     \<and> score (tds (categories report)) = 50"
proof -
  have 1: "configCompanyName gstFetchFailedReplies = Some ''Acme Traders''"
    and 2: "''Acme Traders'' \<noteq> []"
    and 3: "ledgersForGST gstFetchFailedReplies = None"
    by (simp_all add: gstFetchFailedReplies_def repliesWith_def)
  from failed_fetch_reported_as_clean [OF 1 2, of "''2024-03-31''"]
  obtain report where r: "runFullAudit ''2024-03-31'' gstFetchFailedReplies = Inr report"
    and t: "tds (categories report)
         = calculateCategoryScore (auditTDSConfiguration (ledgersForTDS gstFetchFailedReplies)) ''TDS''"
    and g: "ledgersForGST gstFetchFailedReplies = None
         \<longrightarrow> auditGSTConfiguration (ledgersForGST gstFetchFailedReplies) = []
             \<and> gst (categories report) = cleanCategory ''GST''"
    by (elim exE conjE)
  have g': "gst (categories report) = cleanCategory ''GST''"
    using g 3 by simp
  have "issueCount (calculateCategoryScore
           (auditTDSConfiguration (ledgersForTDS gstFetchFailedReplies)) ''TDS'') = 5"
    and "score (calculateCategoryScore
           (auditTDSConfiguration (ledgersForTDS gstFetchFailedReplies)) ''TDS'') = 50"
    by code_simp+
  then have t': "issueCount (tds (categories report)) = 5" "score (tds (categories report)) = 50"
    using t by simp_all
  show ?thesis
    by (intro exI [of _ report] conjI) (rule r 3 g' t')+
qed

lemma runFullAudit_gst_reply:
  assumes "auditGSTConfiguration x = auditGSTConfiguration y"
  shows "runFullAudit today (replies\<lparr>ledgersForGST := x\<rparr>)
           = runFullAudit today (replies\<lparr>ledgersForGST := y\<rparr>)"
  using assms by (simp add: runFullAudit_def Let_def split: option.splits)

text \<open>
  C10 as stated fails: the report of a run whose GST request failed is equal, field by
  field, to the report of a run on a company whose GST ledgers are all in place.
\<close>

theorem failed_fetch_counterexample:
  "ledgersForGST gstFetchFailedReplies = None
   \<and> ledgersForGST cleanGstReplies = Some sixGstLedgers
   \<and> auditGSTConfiguration (Some sixGstLedgers) = []
   \<and> runFullAudit ''2024-03-31'' gstFetchFailedReplies
       = runFullAudit ''2024-03-31'' cleanGstReplies"
proof -
  have clean: "auditGSTConfiguration (Some sixGstLedgers) = []"
    by code_simp
  have same: "cleanGstReplies = (repliesWith sixGstLedgers)\<lparr>ledgersForGST := Some sixGstLedgers\<rparr>"
    by (simp add: cleanGstReplies_def repliesWith_def)
  have "auditGSTConfiguration None = auditGSTConfiguration (Some sixGstLedgers)"
    using clean by (simp add: auditGSTConfiguration_def)
  then have "runFullAudit ''2024-03-31'' gstFetchFailedReplies
       = runFullAudit ''2024-03-31'' cleanGstReplies"
    unfolding gstFetchFailedReplies_def same by (rule runFullAudit_gst_reply)
  moreover have "ledgersForGST gstFetchFailedReplies = None"
    by (simp add: gstFetchFailedReplies_def)
  moreover have "ledgersForGST cleanGstReplies = Some sixGstLedgers"
    by (simp add: cleanGstReplies_def repliesWith_def)
  ultimately show ?thesis using clean by simp
qed

section \<open>Properties of the duplicate rule\<close>

lemma lev_lower: "i - j \<le> lev s1 s2 i j \<and> j - i \<le> lev s1 s2 i j"
  by (induction s1 s2 i j rule: lev.induct) auto

lemma sublist_length_le: "sublist a b \<Longrightarrow> length a \<le> length b"
  by (auto simp: sublist_def)

lemma short_sublist_not_similar:
  assumes "sublist a b" and "\<not> (3 < length a \<and> 3 < length b)"
  shows "\<not> (spec_similarity a b > 8 / 10 \<and> 5 < max (length a) (length b))"
proof
  assume h: "spec_similarity a b > 8 / 10 \<and> 5 < max (length a) (length b)"
  have le: "length a \<le> length b" using assms(1) by (rule sublist_length_le)
  with assms(2) have a3: "length a \<le> 3" by linarith
  from h le have b5: "5 < length b" by simp
  have "length b - length a \<le> lev a b (length a) (length b)"
    using lev_lower [of "length a" "length b" a b] by simp
  with a3 have d: "real (length b) - 3 \<le> real (lev a b (length a) (length b))"
    by linarith
  have pos: "0 < real (length b)" using b5 by (cases b) simp_all
  from h le have "real (lev a b (length a) (length b)) / real (length b) < 2 / 10"
    by (simp add: spec_similarity_def max_def)
  then have "real (lev a b (length a) (length b)) < 2 / 10 * real (length b)"
    using pos by (simp add: pos_divide_less_eq)
  with d b5 show False by simp
qed

lemma spec_similarity_sym: "spec_similarity a b = spec_similarity b a"
  by (simp add: spec_similarity_def lev_sym [of a b] max.commute)

lemma isSimilarName_similarForms: "isSimilarName a b \<longleftrightarrow> similarForms a b"
proof (cases "a = b")
  case True
  then show ?thesis by (simp add: isSimilarName_def similarForms_def)
next
  case False
  show ?thesis
  proof (cases "sublist a b \<or> sublist b a")
    case sub: True
    have "\<not> (spec_similarity a b > 8 / 10 \<and> 5 < max (length a) (length b))"
      if "\<not> (3 < length a \<and> 3 < length b)"
      using sub
    proof
      assume "sublist a b"
      then show ?thesis using that by (rule short_sublist_not_similar)
    next
      assume "sublist b a"
      then have "\<not> (spec_similarity b a > 8 / 10 \<and> 5 < max (length b) (length a))"
        using that by (intro short_sublist_not_similar) auto
      then show ?thesis by (simp add: spec_similarity_sym [of a b] max.commute)
    qed
    then show ?thesis
      using False sub
      by (auto simp: isSimilarName_def similarForms_def includes_sublist)
  next
    case nosub: False
    then show ?thesis
      using False
      by (simp add: isSimilarName_def similarForms_def includes_sublist Let_def
          spec_similarity_def levenshteinDistance_lev)
  qed
qed

lemma duplicateIssues_plain:
  "list_all (\<lambda>i. \<not> autoFixable i \<and> fixAction i = None) (duplicateIssues ledgers)"
  by (simp add: duplicateIssues_def list_all_iff plainIssue_def)

lemma enumerate_filter_nth:
  "map snd (filter (\<lambda>(j, l). P j l) (enumerate 0 xs))
     = map (\<lambda>j. xs ! j) (filter (\<lambda>j. P j (xs ! j)) [0..<length xs])"
proof -
  have "enumerate 0 xs = map (\<lambda>j. (j, xs ! j)) [0..<length xs]"
    by (rule nth_equalityI) (simp_all add: nth_enumerate_eq)
  then show ?thesis
    by (simp add: filter_map comp_def)
qed

lemma similarTo_partners:
  assumes "i < length ledgers"
  shows "similarTo (ledgerNames ledgers) i
     = map (\<lambda>j. (NAME (ledgers ! j), normalizedName (NAME (ledgers ! j)))) (partnersOf ledgers i)"
proof -
  let ?names = "ledgerNames ledgers"
  let ?P = "\<lambda>j. j \<noteq> i \<and> isSimilarName (snd (?names ! i)) (snd (?names ! j))"
  let ?Q = "\<lambda>j. j \<noteq> i \<and> isSimilarName (normalizedName (NAME (ledgers ! i)))
                                      (normalizedName (NAME (ledgers ! j)))"
  have len: "length ?names = length ledgers"
    by (simp add: ledgerNames_def)
  have nth: "?names ! j = (NAME (ledgers ! j), normalizedName (NAME (ledgers ! j)))"
    if "j < length ledgers" for j
    using that by (simp add: ledgerNames_def)
  have "similarTo ?names i = map (\<lambda>j. ?names ! j) (filter ?P [0..<length ?names])"
    unfolding similarTo_def
    by (rule enumerate_filter_nth [of "\<lambda>j l. j \<noteq> i \<and> isSimilarName (snd (?names ! i)) (snd l)"])
  moreover have "filter ?P [0..<length ledgers] = filter ?Q [0..<length ledgers]"
    by (rule filter_cong) (simp_all add: nth assms)
  moreover have "map (\<lambda>j. ?names ! j) (filter ?Q [0..<length ledgers])
     = map (\<lambda>j. (NAME (ledgers ! j), normalizedName (NAME (ledgers ! j))))
         (filter ?Q [0..<length ledgers])"
    by (rule map_cong) (simp_all add: nth)
  ultimately show ?thesis
    by (simp add: len partnersOf_def)
qed

lemma duplicateStep_position:
  assumes "k < length ledgers"
  shows "duplicateStep (ledgerNames ledgers) k (groups, groupedBefore ledgers k)
     = (groups @ (if reportedAt ledgers k
                  then [map (\<lambda>j. NAME (ledgers ! j)) (k # partnersOf ledgers k)] else []),
        groupedBefore ledgers (Suc k))"
proof -
  have nth: "ledgerNames ledgers ! k = (NAME (ledgers ! k), normalizedName (NAME (ledgers ! k)))"
    using assms by (simp add: ledgerNames_def)
  show ?thesis
    by (auto simp: duplicateStep_def nth similarTo_partners [OF assms] reportedAt_def
        comp_def Let_def)
qed

lemma fold_duplicateStep_positions:
  assumes "k \<le> length ledgers"
  shows "fold (duplicateStep (ledgerNames ledgers)) [0..<k] ([], {})
     = (map (\<lambda>i. map (\<lambda>j. NAME (ledgers ! j)) (i # partnersOf ledgers i))
          (filter (reportedAt ledgers) [0..<k]),
        groupedBefore ledgers k)"
  using assms
proof (induction k)
  case 0
  then show ?case by simp
next
  case (Suc k)
  then have k: "k < length ledgers" and IH: "fold (duplicateStep (ledgerNames ledgers)) [0..<k] ([], {})
     = (map (\<lambda>i. map (\<lambda>j. NAME (ledgers ! j)) (i # partnersOf ledgers i))
          (filter (reportedAt ledgers) [0..<k]),
        groupedBefore ledgers k)"
    by simp_all
  have "fold (duplicateStep (ledgerNames ledgers)) [0..<Suc k] ([], {})
     = duplicateStep (ledgerNames ledgers) k
         (fold (duplicateStep (ledgerNames ledgers)) [0..<k] ([], {}))"
    by simp
  also have "\<dots> = (map (\<lambda>i. map (\<lambda>j. NAME (ledgers ! j)) (i # partnersOf ledgers i))
                      (filter (reportedAt ledgers) [0..<k])
                    @ (if reportedAt ledgers k
                       then [map (\<lambda>j. NAME (ledgers ! j)) (k # partnersOf ledgers k)] else []),
                    groupedBefore ledgers (Suc k))"
    unfolding IH by (rule duplicateStep_position [OF k])
  also have "\<dots> = (map (\<lambda>i. map (\<lambda>j. NAME (ledgers ! j)) (i # partnersOf ledgers i))
                      (filter (reportedAt ledgers) [0..<Suc k]),
                    groupedBefore ledgers (Suc k))"
    by simp
  finally show ?case .
qed

lemma duplicateGroups_positions:
  "duplicateGroups (ledgerNames ledgers)
     = map (\<lambda>i. map (\<lambda>j. NAME (ledgers ! j)) (i # partnersOf ledgers i))
         (filter (reportedAt ledgers) [0..<length ledgers])"
proof -
  have "length (ledgerNames ledgers) = length ledgers"
    by (simp add: ledgerNames_def)
  then show ?thesis
    by (simp add: duplicateGroups_def fold_duplicateStep_positions)
qed

lemma groupedBefore_members:
  "x \<in> groupedBefore ledgers k \<longleftrightarrow>
     (\<exists>j < k. reportedAt ledgers j
        \<and> x \<in> (\<lambda>n. normalizedName (NAME (ledgers ! n))) ` set (j # partnersOf ledgers j))"
proof (induction k)
  case 0
  then show ?case by simp
next
  case (Suc k)
  have "x \<in> groupedBefore ledgers (Suc k) \<longleftrightarrow>
      x \<in> groupedBefore ledgers k
      \<or> (reportedAt ledgers k
          \<and> x \<in> (\<lambda>n. normalizedName (NAME (ledgers ! n))) ` set (k # partnersOf ledgers k))"
    by (auto simp: reportedAt_def)
  also have "\<dots> \<longleftrightarrow>
     (\<exists>j < Suc k. reportedAt ledgers j
        \<and> x \<in> (\<lambda>n. normalizedName (NAME (ledgers ! n))) ` set (j # partnersOf ledgers j))"
    unfolding Suc.IH less_Suc_eq by blast
  finally show ?case .
qed

lemma reportedAt_positions:
  "reportedAt ledgers i \<longleftrightarrow>
     partnersOf ledgers i \<noteq> []
     \<and> (\<forall>j < i. reportedAt ledgers j \<longrightarrow>
           normalizedName (NAME (ledgers ! i))
             \<notin> (\<lambda>n. normalizedName (NAME (ledgers ! n))) ` set (j # partnersOf ledgers j))"
  unfolding reportedAt_def [of ledgers i] groupedBefore_members by blast

lemma duplicateIssues_items:
  "map affectedItems (duplicateIssues ledgers) = map Some (duplicateGroups (ledgerNames ledgers))"
  by (simp add: duplicateIssues_def plainIssue_def comp_def)

text \<open>
  C8 (amended). The test the duplicate rule makes on two normalized forms holds exactly when
  the forms are distinct and either one is a substring of the other and both are longer than
  3 characters, or their edit-distance similarity exceeds 0.8 and the longer of the two is
  longer than 5 characters. The rule walks the ledgers in order and reports a group for a
  ledger exactly when the ledger has a partner (another ledger whose normalized name passes
  the test with its own) and its normalized name is not that of a member of a group reported
  for an earlier ledger; the group is the ledger's name followed by the names of all its
  partners. The issues of the rule carry these groups, one issue per group, and are never
  auto-fixable.
\<close>

theorem duplicate_rule:
  "(isSimilarName a b \<longleftrightarrow>
      a \<noteq> b \<and> (((sublist a b \<or> sublist b a) \<and> 3 < length a \<and> 3 < length b)
               \<or> (spec_similarity a b > 8 / 10 \<and> 5 < max (length a) (length b))))
   \<and> duplicateGroups (ledgerNames ledgers)
       = map (\<lambda>i. map (\<lambda>j. NAME (ledgers ! j)) (i # partnersOf ledgers i))
           (filter (reportedAt ledgers) [0..<length ledgers])
   \<and> partnersOf ledgers i
       = filter (\<lambda>j. j \<noteq> i \<and> isSimilarName (normalizedName (NAME (ledgers ! i)))
                                         (normalizedName (NAME (ledgers ! j))))
           [0..<length ledgers]
   \<and> (reportedAt ledgers i \<longleftrightarrow>
        partnersOf ledgers i \<noteq> []
        \<and> (\<forall>j < i. reportedAt ledgers j \<longrightarrow>
              normalizedName (NAME (ledgers ! i))
                \<notin> (\<lambda>n. normalizedName (NAME (ledgers ! n))) ` set (j # partnersOf ledgers j)))
   \<and> map affectedItems (duplicateIssues ledgers) = map Some (duplicateGroups (ledgerNames ledgers))
   \<and> list_all (\<lambda>i. \<not> autoFixable i \<and> fixAction i = None) (duplicateIssues ledgers)"
proof (intro conjI)
  show "isSimilarName a b \<longleftrightarrow>
      a \<noteq> b \<and> (((sublist a b \<or> sublist b a) \<and> 3 < length a \<and> 3 < length b)
               \<or> (spec_similarity a b > 8 / 10 \<and> 5 < max (length a) (length b)))"
    using isSimilarName_similarForms [of a b] by (simp add: similarForms_def)
next
  show "duplicateGroups (ledgerNames ledgers)
       = map (\<lambda>i. map (\<lambda>j. NAME (ledgers ! j)) (i # partnersOf ledgers i))
           (filter (reportedAt ledgers) [0..<length ledgers])"
    by (rule duplicateGroups_positions)
next
  show "partnersOf ledgers i
       = filter (\<lambda>j. j \<noteq> i \<and> isSimilarName (normalizedName (NAME (ledgers ! i)))
                                         (normalizedName (NAME (ledgers ! j))))
           [0..<length ledgers]"
    by (rule partnersOf_def)
next
  show "reportedAt ledgers i \<longleftrightarrow>
        partnersOf ledgers i \<noteq> []
        \<and> (\<forall>j < i. reportedAt ledgers j \<longrightarrow>
              normalizedName (NAME (ledgers ! i))
                \<notin> (\<lambda>n. normalizedName (NAME (ledgers ! n))) ` set (j # partnersOf ledgers j))"
    by (rule reportedAt_positions)
next
  show "map affectedItems (duplicateIssues ledgers)
          = map Some (duplicateGroups (ledgerNames ledgers))"
    by (rule duplicateIssues_items)
next
  show "list_all (\<lambda>i. \<not> autoFixable i \<and> fixAction i = None) (duplicateIssues ledgers)"
    by (rule duplicateIssues_plain)
qed

text \<open>
  The amended statement on four debtors: Amazon is reported with its one partner Amazn; Amazn
  has Amazon as its partner but is already a member of that group; ABC and ABC D have no
  partner, their forms being too short.
\<close>

theorem duplicate_rule_witness:
  "isSimilarName ''amazon'' ''amazn''
   \<and> map (partnersOf duplicateScenario) [0, 1, 2, 3] = [[1], [0], [], []]
   \<and> reportedAt duplicateScenario 0
   \<and> \<not> reportedAt duplicateScenario 1
   \<and> \<not> reportedAt duplicateScenario 2
   \<and> \<not> reportedAt duplicateScenario 3
   \<and> duplicateGroups (ledgerNames duplicateScenario) = [[''Amazon'', ''Amazn'']]
   \<and> map affectedItems (duplicateIssues duplicateScenario) = [Some [''Amazon'', ''Amazn'']]
   \<and> list_all (\<lambda>i. \<not> autoFixable i \<and> fixAction i = None) (duplicateIssues duplicateScenario)"
proof -
  note rule = duplicate_rule [where a = "''amazon''" and b = "''amazn''"
      and ledgers = duplicateScenario]
  note test = rule [where i = 0, THEN conjunct1]
  note groups = rule [where i = 0, THEN conjunct2, THEN conjunct1]
  note reported = rule [THEN conjunct2, THEN conjunct2, THEN conjunct2, THEN conjunct1]
  note items = rule [where i = 0, THEN conjunct2, THEN conjunct2, THEN conjunct2, THEN conjunct2,
      THEN conjunct1]
  note plain = rule [where i = 0, THEN conjunct2, THEN conjunct2, THEN conjunct2, THEN conjunct2,
      THEN conjunct2]
  have lv: "lev ''amazon'' ''amazn'' 6 5 = 1" by code_simp
  have ns: "\<not> sublist ''amazon'' ''amazn''" "\<not> sublist ''amazn'' ''amazon''"
    unfolding includes_sublist [symmetric] by code_simp+
  have s: "isSimilarName ''amazon'' ''amazn''"
    unfolding test using ns lv by (simp add: spec_similarity_def)
  have p: "partnersOf duplicateScenario 0 = [1]" "partnersOf duplicateScenario 1 = [0]"
    "partnersOf duplicateScenario 2 = []" "partnersOf duplicateScenario 3 = []"
    by code_simp+
  have n: "normalizedName (NAME (duplicateScenario ! 0)) = ''amazon''"
    "normalizedName (NAME (duplicateScenario ! 1)) = ''amazn''"
    by code_simp+
  have nm: "NAME (duplicateScenario ! 0) = ''Amazon''" "NAME (duplicateScenario ! 1) = ''Amazn''"
    by (simp_all add: duplicateScenario_def namedLedger_def)
  have r0: "reportedAt duplicateScenario 0"
    using reported [of 0] p by simp
  have r1: "\<not> reportedAt duplicateScenario 1"
    using reported [of 1] r0 p n by simp
  have r2: "\<not> reportedAt duplicateScenario 2"
    using reported [of 2] p by simp
  have r3: "\<not> reportedAt duplicateScenario 3"
    using reported [of 3] p by simp
  have len: "[0..<length duplicateScenario] = [0, 1, 2, 3]"
    by code_simp
  have g: "duplicateGroups (ledgerNames duplicateScenario) = [[''Amazon'', ''Amazn'']]"
    unfolding groups len using r0 r1 r2 r3 p nm by simp
  have it: "map affectedItems (duplicateIssues duplicateScenario) = [Some [''Amazon'', ''Amazn'']]"
    unfolding items g by simp
  have ps: "map (partnersOf duplicateScenario) [0, 1, 2, 3] = [[1], [0], [], []]"
    using p by simp
  show ?thesis
    by (intro conjI) (rule s ps r0 r1 r2 r3 g it plain)+
qed

text \<open>
  C8 as stated fails on the test and on the groups. \<open>abc\<close> is a substring of \<open>abcd\<close>
  and the pair does not pass the test (a form of 3 characters); \<open>amazon\<close> and
  \<open>amazn\<close> pass it although one of them has only 5 characters. Of four names,
  \<open>xbcdef\<close> and \<open>xycdef\<close> are duplicates in the sense of the claim, pass the
  test, and are reported in two different groups; of three names, \<open>xbcdef\<close> and
  \<open>aycdef\<close> are no duplicates in the sense of the claim, do not pass the test, and are
  reported in one group.
\<close>

theorem duplicate_rule_counterexample:
  "\<not> isSimilarName (normalizedName ''ABC'') (normalizedName ''ABC D'')
   \<and> spec_duplicate ''ABC'' ''ABC D''
   \<and> isSimilarName (normalizedName ''Amazon'') (normalizedName ''Amazn'')
   \<and> \<not> spec_duplicate ''Amazon'' ''Amazn''
   \<and> duplicateGroups (ledgerNames chainScenario)
       = [[''abcdef'', ''xbcdef''], [''xyzdef'', ''xycdef'']]
   \<and> spec_duplicate ''xbcdef'' ''xycdef''
   \<and> isSimilarName (normalizedName ''xbcdef'') (normalizedName ''xycdef'')
   \<and> duplicateGroups (ledgerNames starScenario) = [[''abcdef'', ''xbcdef'', ''aycdef'']]
   \<and> \<not> spec_duplicate ''xbcdef'' ''aycdef''
   \<and> \<not> isSimilarName (normalizedName ''xbcdef'') (normalizedName ''aycdef'')"
proof -
  have n: "normalizedName ''ABC'' = ''abc''" "normalizedName ''ABC D'' = ''abcd''"
    "normalizedName ''Amazon'' = ''amazon''" "normalizedName ''Amazn'' = ''amazn''"
    "normalizedName ''xbcdef'' = ''xbcdef''" "normalizedName ''xycdef'' = ''xycdef''"
    "normalizedName ''aycdef'' = ''aycdef''"
    by code_simp+
  have 1: "\<not> isSimilarName ''abc'' ''abcd''" and 2: "isSimilarName ''amazon'' ''amazn''"
    by code_simp+
  have 3: "str_includes ''abcd'' ''abc''" by code_simp
  have 4: "spec_duplicate ''ABC'' ''ABC D''"
    using 3 by (simp add: spec_duplicate_def n includes_sublist)
  have 5: "\<not> spec_duplicate ''Amazon'' ''Amazn''"
  proof -
    have "\<not> str_includes ''amazon'' ''amazn''" "\<not> str_includes ''amazn'' ''amazon''"
      by code_simp+
    then show ?thesis
      by (simp add: spec_duplicate_def n includes_sublist)
  qed
  have 6: "duplicateGroups (ledgerNames chainScenario)
       = [[''abcdef'', ''xbcdef''], [''xyzdef'', ''xycdef'']]"
    by code_simp
  have 7: "spec_duplicate ''xbcdef'' ''xycdef''"
  proof -
    have "lev ''xbcdef'' ''xycdef'' 6 6 = 1" by code_simp
    then show ?thesis
      by (simp add: spec_duplicate_def n spec_similarity_def)
  qed
  have 8: "duplicateGroups (ledgerNames starScenario) = [[''abcdef'', ''xbcdef'', ''aycdef'']]"
    by code_simp
  have 9: "\<not> spec_duplicate ''xbcdef'' ''aycdef''"
  proof -
    have "\<not> str_includes ''xbcdef'' ''aycdef''" "\<not> str_includes ''aycdef'' ''xbcdef''"
      and "lev ''xbcdef'' ''aycdef'' 6 6 = 2"
      by code_simp+
    then show ?thesis
      by (simp add: spec_duplicate_def n includes_sublist spec_similarity_def)
  qed
  have 10: "isSimilarName ''xbcdef'' ''xycdef''" and 11: "\<not> isSimilarName ''xbcdef'' ''aycdef''"
    by code_simp+
  show ?thesis using 1 2 4 5 6 7 8 9 10 11 by (simp add: n)
qed

section \<open>Properties of the reconciliation\<close>

lemma fuzzyScan_step:
  "fuzzyScan gt e books i =
     (if i < length books
      then (if spec_fuzzyCandidate gt e (books ! i)
            then Some (i, the (daysDiffOf gt e (snd (books ! i))))
            else fuzzyScan gt e books (i + 1))
      else None)"
  by (subst fuzzyScan.simps) (auto simp: spec_fuzzyCandidate_def Let_def split: option.splits)

lemma fuzzyScan_none:
  assumes "\<And>j. i \<le> j \<Longrightarrow> j < length books \<Longrightarrow> \<not> spec_fuzzyCandidate gt e (books ! j)"
  shows "fuzzyScan gt e books i = None"
  using assms
proof (induction "length books - i" arbitrary: i)
  case 0
  then show ?case by (subst fuzzyScan_step) simp
next
  case (Suc n)
  then have "fuzzyScan gt e books (i + 1) = None"
    by (intro Suc.hyps(1)) auto
  with Suc.prems [of i] show ?case by (subst fuzzyScan_step) simp
qed

lemma fuzzyScan_first:
  assumes "i \<le> k" and "k < length books" and "spec_fuzzyCandidate gt e (books ! k)"
    and "\<And>j. i \<le> j \<Longrightarrow> j < k \<Longrightarrow> \<not> spec_fuzzyCandidate gt e (books ! j)"
  shows "fuzzyScan gt e books i = Some (k, the (daysDiffOf gt e (snd (books ! k))))"
  using assms
proof (induction "k - i" arbitrary: i)
  case 0
  then have "i = k" by simp
  with 0 show ?case by (subst fuzzyScan_step) simp
next
  case (Suc n)
  then have lt: "i < k" by simp
  have "fuzzyScan gt e books (i + 1) = Some (k, the (daysDiffOf gt e (snd (books ! k))))"
    using Suc.hyps(2) Suc.prems lt by (intro Suc.hyps(1)) auto
  with Suc.prems lt show ?case by (subst fuzzyScan_step) simp
qed

lemma indexOf_ge: "- 1 \<le> indexOf xs x"
  by (induction xs) (auto simp: Let_def)

lemma indexOf_remove1:
  "(if indexOf xs x > - 1 then splice1 xs (nat (indexOf xs x)) else xs) = remove1 x xs"
proof (induction xs)
  case Nil
  then show ?case by simp
next
  case (Cons y ys)
  show ?case
  proof (cases "y = x")
    case True
    then show ?thesis by (simp add: splice1_def)
  next
    case False
    show ?thesis
    proof (cases "indexOf ys x = - 1")
      case True
      with False Cons show ?thesis by (simp add: Let_def)
    next
      case nz: False
      with indexOf_ge [of ys x] have pos: "0 \<le> indexOf ys x" by linarith
      then have "nat (indexOf ys x + 1) = Suc (nat (indexOf ys x))" by simp
      with False nz pos Cons show ?thesis
        by (simp add: Let_def splice1_def)
    qed
  qed
qed

lemma remove1_nth_distinct:
  assumes "distinct xs" and "i < length xs"
  shows "take i xs @ drop (Suc i) xs = remove1 (xs ! i) xs"
proof -
  have "xs = take i xs @ xs ! i # drop (Suc i) xs"
    using assms(2) by (rule id_take_nth_drop)
  moreover have "xs ! i \<notin> set (take i xs)"
    using assms by (auto simp: in_set_conv_nth distinct_conv_nth)
  ultimately have "remove1 (xs ! i) xs = take i xs @ remove1 (xs ! i) (xs ! i # drop (Suc i) xs)"
    by (metis remove1_append)
  then show ?thesis by simp
qed



lemma fuzzyScan_Some:
  assumes "fuzzyScan gt e books i = Some (k, d)"
  shows "k < length books"
proof (rule ccontr)
  assume "\<not> k < length books"
  show False
  proof (cases "\<exists>j. i \<le> j \<and> j < length books \<and> spec_fuzzyCandidate gt e (books ! j)")
    case False
    then have "fuzzyScan gt e books i = None" by (intro fuzzyScan_none) auto
    with assms show False by simp
  next
    case True
    define k' where "k' = (LEAST j. i \<le> j \<and> j < length books \<and> spec_fuzzyCandidate gt e (books ! j))"
    from True have p: "i \<le> k' \<and> k' < length books \<and> spec_fuzzyCandidate gt e (books ! k')"
      unfolding k'_def by (rule LeastI_ex)
    have "\<not> spec_fuzzyCandidate gt e (books ! j)" if "i \<le> j" "j < k'" for j
      using not_less_Least [of j "\<lambda>j. i \<le> j \<and> j < length books \<and> spec_fuzzyCandidate gt e (books ! j)"]
        that p unfolding k'_def by auto
    with p have "fuzzyScan gt e books i = Some (k', the (daysDiffOf gt e (snd (books ! k'))))"
      by (intro fuzzyScan_first) auto
    with assms p \<open>\<not> k < length books\<close> show False by simp
  qed
qed

lemma stillUnmatched_step:
  assumes "bookTransactions st = stillUnmatched bankBook st"
  shows "bookTransactions (processEntry gt e st) = stillUnmatched bankBook (processEntry gt e st)"
proof (cases "exactPhase e st")
  case (Some st1)
  then obtain b where st1: "st_matched st1 = st_matched st @ [\<lparr>bookTransaction = b, statementEntry = e,
                                matchType = ''Exact'', daysDifference = None\<rparr>]"
      and books: "bookTransactions st1 = remove1 b (bookTransactions st)"
    by (auto simp: exactPhase_def Let_def indexOf_remove1 split: option.splits list.splits if_splits)
  have "remove1 b (stillUnmatched bankBook st)
          = filter (\<lambda>x. b \<noteq> x) (stillUnmatched bankBook st)"
    by (simp add: stillUnmatched_def distinct_remove1_removeAll removeAll_filter_not_eq)
  then have "bookTransactions st1 = stillUnmatched bankBook st1"
    using books assms st1 by (auto simp: stillUnmatched_def intro!: filter_cong)
  with Some show ?thesis by (simp add: processEntry_def)
next
  case None
  show ?thesis
  proof (cases "fuzzyScan gt e (bookTransactions st) 0")
    case n: None
    then show ?thesis using None assms
      by (simp add: processEntry_def fuzzyPhase_def stillUnmatched_def)
  next
    case (Some r)
    obtain i d where r: "r = (i, d)" by (cases r)
    have i: "i < length (bookTransactions st)"
      using Some r fuzzyScan_Some by blast
    let ?b = "bookTransactions st ! i"
    have d: "distinct (bookTransactions st)"
      using assms by (simp add: stillUnmatched_def)
    have "take i (bookTransactions st) @ drop (Suc i) (bookTransactions st)
           = filter (\<lambda>x. ?b \<noteq> x) (bookTransactions st)"
      using remove1_nth_distinct [OF d i] d
      by (simp add: distinct_remove1_removeAll removeAll_filter_not_eq)
    then show ?thesis
      using None Some r assms
      by (auto simp: processEntry_def fuzzyPhase_def stillUnmatched_def splice1_def
               intro!: filter_cong)
  qed
qed

lemma stillUnmatched_fold:
  assumes "bookTransactions st = stillUnmatched bankBook st"
  shows "bookTransactions (fold (processEntry gt) es st)
           = stillUnmatched bankBook (fold (processEntry gt) es st)"
  using assms by (induction es arbitrary: st) (simp_all add: stillUnmatched_step)

lemma stillUnmatched_reachable:
  "bookTransactions (fold (processEntry gt) es (initialState bankBook))
     = stillUnmatched bankBook (fold (processEntry gt) es (initialState bankBook))"
  by (rule stillUnmatched_fold) (simp add: initialState_def stillUnmatched_def Let_def)

lemma iso_date_values:
  "isoDate ''2024-02-01'' = Some 1706745600000"
  "isoDate ''2024-02-08'' = Some 1707350400000"
  "isoDate ''2024-02-09'' = Some 1707436800000"
  "isoDate ''2024-01-10'' = Some 1704844800000"
  "isoDate ''2024-01-11'' = Some 1704931200000"
  "isoDate ''2024-01-12'' = Some 1705017600000"
  "isoDate ''2024-03-31'' = Some 1711843200000"
  "isoDate ''2024-01-31'' = Some 1706659200000"
  by code_simp+

lemma iso_dates:
  "isoGetTime other ''2024-02-01'' = Some 1706745600000"
  "isoGetTime other ''2024-02-08'' = Some 1707350400000"
  "isoGetTime other ''2024-02-09'' = Some 1707436800000"
  "isoGetTime other ''2024-01-10'' = Some 1704844800000"
  "isoGetTime other ''2024-01-11'' = Some 1704931200000"
  "isoGetTime other ''2024-01-12'' = Some 1705017600000"
  by (simp_all add: isoGetTime_def iso_date_values)

lemmas reconcile_eval =
  autoReconcile_def initialState_def processEntry_def exactPhase_def fuzzyPhase_def
  fuzzyScan.simps daysDiffOf_def numOr_def splice1_def msPerDay_def addToBookMap_def
  createMatchKey_def toFixed2_def showNat.simps digitChar_def bookTxn_def stmtEntry_def
  Let_def iso_dates




lemmas state_eval =
  initialState_def exactPhase_def daysDiffOf_def numOr_def msPerDay_def addToBookMap_def
  createMatchKey_def toFixed2_def showNat.simps digitChar_def bookTxn_def stmtEntry_def
  spec_fuzzyCandidate_def Let_def iso_dates


lemma addToBookMap_apply:
  "addToBookMap b m k
     = (if createMatchKey (snd b) = k
        then Some ((case m k of None \<Rightarrow> [] | Some old \<Rightarrow> old) @ [b])
        else m k)"
  by (simp add: addToBookMap_def Let_def split: option.splits)

lemma fold_addToBookMap:
  "fold addToBookMap books m k
     = (case filter (\<lambda>b. createMatchKey (snd b) = k) books of
          [] \<Rightarrow> m k
        | l \<Rightarrow> Some ((case m k of None \<Rightarrow> [] | Some old \<Rightarrow> old) @ l))"
proof (induction books arbitrary: m)
  case Nil
  then show ?case by simp
next
  case (Cons b books)
  have "fold addToBookMap (b # books) m k = fold addToBookMap books (addToBookMap b m) k"
    by simp
  also have "\<dots> = (case filter (\<lambda>b. createMatchKey (snd b) = k) books of
          [] \<Rightarrow> addToBookMap b m k
        | l \<Rightarrow> Some ((case addToBookMap b m k of None \<Rightarrow> [] | Some old \<Rightarrow> old) @ l))"
    by (rule Cons.IH)
  also have "\<dots> = (case filter (\<lambda>b. createMatchKey (snd b) = k) (b # books) of
          [] \<Rightarrow> m k
        | l \<Rightarrow> Some ((case m k of None \<Rightarrow> [] | Some old \<Rightarrow> old) @ l))"
    by (simp add: addToBookMap_apply split: list.splits option.splits)
  finally show ?case .
qed

lemma initial_bookMap:
  "bookMap (initialState bankBook) k
     = (case filter (\<lambda>b. createMatchKey (snd b) = k) (enumerate 0 bankBook) of
          [] \<Rightarrow> None
        | l \<Rightarrow> Some l)"
  by (simp add: initialState_def Let_def fold_addToBookMap split: list.splits)

lemma processEntry_exact:
  assumes "stmt_chequeNumber e = Some c" and "c \<noteq> []"
    and "bookMap st (c @ ''_'' @ toFixed2 (numOr (stmt_debit e) (stmt_credit e))) = Some (b # rest)"
  shows "processEntry gt e st
     = exactMatchedState e (c @ ''_'' @ toFixed2 (numOr (stmt_debit e) (stmt_credit e))) b rest st"
  using assms
  by (simp add: processEntry_def exactPhase_def exactMatchedState_def Let_def indexOf_remove1)

lemma scenario_cheque:
  "autoReconcile gt (Inr [bookTxn d1 ''CHQ100'' 0 5000]) [stmtEntry d2 (Some ''CHQ100'') 5000 0]
     = Inr \<lparr>matched = [\<lparr>bookTransaction = (0, bookTxn d1 ''CHQ100'' 0 5000),
                         statementEntry = stmtEntry d2 (Some ''CHQ100'') 5000 0,
                         matchType = ''Exact'', daysDifference = None\<rparr>],
            unmatchedInBooks = [], unmatchedInStatement = [], amountMismatch = [],
            dateMismatch = [],
            recon_summary = \<lparr>totalMatched = 1, totalUnmatchedBooks = 0,
                              totalUnmatchedStatement = 0, matchPercentage = 100\<rparr>\<rparr>"
  by (simp add: autoReconcile_def initialState_def processEntry_def exactPhase_def numOr_def
      splice1_def addToBookMap_def createMatchKey_def toFixed2_def showNat.simps digitChar_def
      bookTxn_def stmtEntry_def Let_def)

lemma processEntry_cases:
  "(processEntry gt e st = unmatchedState e st)
   \<or> (\<exists>key b rest. bookMap st key = Some (b # rest)
         \<and> processEntry gt e st = exactMatchedState e key b rest st)
   \<or> (\<exists>i d. i < length (bookTransactions st)
         \<and> processEntry gt e st = fuzzyMatchedState e i d st)"
proof (cases "exactPhase e st")
  case (Some st1)
  then have "\<exists>key b rest. bookMap st key = Some (b # rest)
         \<and> processEntry gt e st = exactMatchedState e key b rest st"
    by (auto simp: processEntry_def exactPhase_def exactMatchedState_def Let_def indexOf_remove1
             split: option.splits list.splits if_splits)
  then show ?thesis by blast
next
  case None
  show ?thesis
  proof (cases "fuzzyScan gt e (bookTransactions st) 0")
    case n: None
    then show ?thesis using None
      by (simp add: processEntry_def fuzzyPhase_def unmatchedState_def)
  next
    case (Some r)
    obtain i d where r: "r = (i, d)" by (cases r)
    have i: "i < length (bookTransactions st)"
      using Some r fuzzyScan_Some by blast
    have "processEntry gt e st = fuzzyMatchedState e i d st"
      using None Some r
      by (simp add: processEntry_def fuzzyPhase_def fuzzyMatchedState_def splice1_def)
    with i show ?thesis by blast
  qed
qed

lemma lookup_keys_step:
  assumes "\<And>k l x. bookMap st k = Some l \<Longrightarrow> x \<in> set l \<Longrightarrow> createMatchKey (snd x) = k"
    and "bookMap (processEntry gt e st) k = Some l" and "x \<in> set l"
  shows "createMatchKey (snd x) = k"
  using processEntry_cases [of gt e st]
proof (elim disjE exE conjE)
  assume "processEntry gt e st = unmatchedState e st"
  then show ?thesis using assms by (simp add: unmatchedState_def)
next
  fix key b rest
  assume m: "bookMap st key = Some (b # rest)"
    and p: "processEntry gt e st = exactMatchedState e key b rest st"
  show ?thesis
  proof (cases "k = key")
    case True
    with assms(2,3) p have "x \<in> set (b # rest)" by (simp add: exactMatchedState_def)
    with assms(1) [OF m] True show ?thesis by blast
  next
    case False
    with assms(2) p have "bookMap st k = Some l" by (simp add: exactMatchedState_def)
    with assms(1,3) show ?thesis by blast
  qed
next
  fix i d
  assume "processEntry gt e st = fuzzyMatchedState e i d st"
  then show ?thesis using assms by (simp add: fuzzyMatchedState_def)
qed

lemma lookup_keys_fold:
  assumes "\<And>k l x. bookMap st k = Some l \<Longrightarrow> x \<in> set l \<Longrightarrow> createMatchKey (snd x) = k"
    and "bookMap (fold (processEntry gt) es st) k = Some l" and "x \<in> set l"
  shows "createMatchKey (snd x) = k"
  using assms
proof (induction es arbitrary: st)
  case Nil
  then show ?case by simp
next
  case (Cons e es)
  show ?case
  proof (rule Cons.IH [of "processEntry gt e st"])
    fix k' l' x'
    assume "bookMap (processEntry gt e st) k' = Some l'" and "x' \<in> set l'"
    then show "createMatchKey (snd x') = k'"
      using Cons.prems(1) by (rule lookup_keys_step [rotated])
  next
    show "bookMap (fold (processEntry gt) es (processEntry gt e st)) k = Some l"
      using Cons.prems(2) by simp
  next
    show "x \<in> set l" by (rule Cons.prems(3))
  qed
qed

lemma lookup_keys_reachable:
  assumes "bookMap (fold (processEntry gt) es (initialState bankBook)) k = Some l" and "x \<in> set l"
  shows "createMatchKey (snd x) = k"
proof (rule lookup_keys_fold [OF _ assms])
  fix k' l' x'
  assume "bookMap (initialState bankBook) k' = Some l'" and "x' \<in> set l'"
  then show "createMatchKey (snd x') = k'"
    by (auto simp: initial_bookMap split: list.splits)
qed

lemma exact_only_step:
  assumes "bookTransactions st = stillUnmatched bankBook st"
    and "b \<in> bookTransaction ` set (st_matched st)"
    and "\<And>m. m \<in> set (st_matched st) \<Longrightarrow> bookTransaction m = b \<Longrightarrow> matchType m = ''Exact''"
  shows "b \<in> bookTransaction ` set (st_matched (processEntry gt e st))
     \<and> (\<forall>m \<in> set (st_matched (processEntry gt e st)). bookTransaction m = b \<longrightarrow> matchType m = ''Exact'')"
  using processEntry_cases [of gt e st]
proof (elim disjE exE conjE)
  assume "processEntry gt e st = unmatchedState e st"
  then show ?thesis using assms(2,3) by (simp add: unmatchedState_def)
next
  fix key b' rest
  assume "processEntry gt e st = exactMatchedState e key b' rest st"
  then show ?thesis using assms(2,3) by (auto simp: exactMatchedState_def)
next
  fix i d
  assume i: "i < length (bookTransactions st)"
    and p: "processEntry gt e st = fuzzyMatchedState e i d st"
  have "bookTransactions st ! i \<in> set (stillUnmatched bankBook st)"
    using i assms(1) by (metis nth_mem)
  then have "bookTransactions st ! i \<noteq> b"
    using assms(2) by (auto simp: stillUnmatched_def)
  then show ?thesis using p assms(2,3) by (auto simp: fuzzyMatchedState_def)
qed

lemma exact_only_fold:
  assumes "bookTransactions st = stillUnmatched bankBook st"
    and "b \<in> bookTransaction ` set (st_matched st)"
    and "\<And>m. m \<in> set (st_matched st) \<Longrightarrow> bookTransaction m = b \<Longrightarrow> matchType m = ''Exact''"
  shows "b \<in> bookTransaction ` set (st_matched (fold (processEntry gt) es st))
     \<and> (\<forall>m \<in> set (st_matched (fold (processEntry gt) es st)).
           bookTransaction m = b \<longrightarrow> matchType m = ''Exact'')"
  using assms
proof (induction es arbitrary: st)
  case Nil
  then show ?case by simp
next
  case (Cons e es)
  have s: "b \<in> bookTransaction ` set (st_matched (processEntry gt e st))
     \<and> (\<forall>m \<in> set (st_matched (processEntry gt e st)). bookTransaction m = b \<longrightarrow> matchType m = ''Exact'')"
    using Cons.prems by (rule exact_only_step)
  have "b \<in> bookTransaction ` set (st_matched (fold (processEntry gt) es (processEntry gt e st)))
     \<and> (\<forall>m \<in> set (st_matched (fold (processEntry gt) es (processEntry gt e st))).
           bookTransaction m = b \<longrightarrow> matchType m = ''Exact'')"
  proof (rule Cons.IH)
    show "bookTransactions (processEntry gt e st) = stillUnmatched bankBook (processEntry gt e st)"
      using Cons.prems(1) by (rule stillUnmatched_step)
  next
    show "b \<in> bookTransaction ` set (st_matched (processEntry gt e st))"
      using s by (rule conjunct1)
  next
    fix m assume "m \<in> set (st_matched (processEntry gt e st))" and "bookTransaction m = b"
    then show "matchType m = ''Exact''" using s by blast
  qed
  then show ?case by simp
qed

lemma exact_pairing_book_side:
  assumes st: "st = fold (processEntry gt) earlier (initialState bankBook)"
    and b: "b \<in> set (bookTransactions st)"
    and p: "processEntry gt e st = exactMatchedState e key b rest st"
  shows "b \<notin> bookTransaction ` set (st_matched st)"
    and "b \<notin> set (bookTransactions (fold (processEntry gt) later (processEntry gt e st)))"
    and "\<forall>m \<in> set (st_matched (fold (processEntry gt) later (processEntry gt e st))).
           bookTransaction m = b \<longrightarrow> matchType m = ''Exact''"
proof -
  have inv: "bookTransactions st = stillUnmatched bankBook st"
    unfolding st by (rule stillUnmatched_reachable)
  with b show fresh: "b \<notin> bookTransaction ` set (st_matched st)"
    by (simp add: stillUnmatched_def)
  let ?st1 = "processEntry gt e st"
  have inv1: "bookTransactions ?st1 = stillUnmatched bankBook ?st1"
    using inv by (rule stillUnmatched_step)
  have in1: "b \<in> bookTransaction ` set (st_matched ?st1)"
    by (simp add: p exactMatchedState_def)
  have ex1: "matchType m = ''Exact''" if "m \<in> set (st_matched ?st1)" "bookTransaction m = b" for m
  proof (cases "m \<in> set (st_matched st)")
    case True
    with that(2) fresh show ?thesis by blast
  next
    case False
    with that(1) have "m = \<lparr>bookTransaction = b, statementEntry = e, matchType = ''Exact'',
                          daysDifference = None\<rparr>"
      by (simp add: p exactMatchedState_def)
    then have "matchType m = matchType \<lparr>bookTransaction = b, statementEntry = e,
                          matchType = ''Exact'', daysDifference = None\<rparr>"
      by (rule arg_cong)
    then show ?thesis by simp
  qed
  have fin: "b \<in> bookTransaction ` set (st_matched (fold (processEntry gt) later ?st1))
     \<and> (\<forall>m \<in> set (st_matched (fold (processEntry gt) later ?st1)).
           bookTransaction m = b \<longrightarrow> matchType m = ''Exact'')"
    using inv1 in1 ex1 by (rule exact_only_fold)
  then show "\<forall>m \<in> set (st_matched (fold (processEntry gt) later ?st1)).
           bookTransaction m = b \<longrightarrow> matchType m = ''Exact''"
    by (rule conjunct2)
  have "bookTransactions (fold (processEntry gt) later ?st1)
          = stillUnmatched bankBook (fold (processEntry gt) later ?st1)"
    using inv1 by (rule stillUnmatched_fold)
  with fin show "b \<notin> set (bookTransactions (fold (processEntry gt) later ?st1))"
    by (simp add: stillUnmatched_def)
qed

text \<open>
  C4 (amended). Take any point of the loop over the statement, and a statement entry with a
  non-empty cheque number whose key (cheque number and amount to two decimals) has, first in
  the lookup, a book record that is still in the list of unmatched book records. Then the
  entry is paired with that record with match type Exact, whatever the dates, and neither of
  the two goes through the fuzzy phase: the step does not depend on the dates at all; the
  book record has the entry's key, was in no pair before, is never again in the list the
  fuzzy phase scans, and every pair that holds it at any later point of the run has type
  Exact. At the start the lookup holds under each key the book records with that key in
  bank-book order, and a book record with the same cheque number and amount has the entry's
  key. A book record with cheque CHQ100 over 5000 and a statement line with cheque CHQ100
  over 5000 yield exactly one match, of type Exact, for any two dates.
\<close>

theorem exact_phase_first_candidate:
  "(st = fold (processEntry gt) earlier (initialState bankBook)
      \<and> stmt_chequeNumber e = Some c \<and> c \<noteq> []
      \<and> key = c @ ''_'' @ toFixed2 (numOr (stmt_debit e) (stmt_credit e))
      \<and> bookMap st key = Some (b # rest)
      \<and> b \<in> set (bookTransactions st)
    \<longrightarrow> processEntry gt' e st = exactMatchedState e key b rest st
        \<and> createMatchKey (snd b) = key
        \<and> b \<notin> bookTransaction ` set (st_matched st)
        \<and> b \<notin> set (bookTransactions (fold (processEntry gt) later (processEntry gt e st)))
        \<and> (\<forall>m \<in> set (st_matched (fold (processEntry gt) later (processEntry gt e st))).
              bookTransaction m = b \<longrightarrow> matchType m = ''Exact''))
   \<and> bookMap (initialState bankBook) k
       = (case filter (\<lambda>b. createMatchKey (snd b) = k) (enumerate 0 bankBook) of
            [] \<Rightarrow> None
          | l \<Rightarrow> Some l)
   \<and> (chequeNumber t = Some c
        \<and> numOr (debit t) (credit t) = numOr (stmt_debit e) (stmt_credit e)
      \<longrightarrow> createMatchKey t = c @ ''_'' @ toFixed2 (numOr (stmt_debit e) (stmt_credit e)))
   \<and> autoReconcile gt (Inr [bookTxn d1 ''CHQ100'' 0 5000])
         [stmtEntry d2 (Some ''CHQ100'') 5000 0]
       = Inr \<lparr>matched = [\<lparr>bookTransaction = (0, bookTxn d1 ''CHQ100'' 0 5000),
                           statementEntry = stmtEntry d2 (Some ''CHQ100'') 5000 0,
                           matchType = ''Exact'', daysDifference = None\<rparr>],
              unmatchedInBooks = [], unmatchedInStatement = [], amountMismatch = [],
              dateMismatch = [],
              recon_summary = \<lparr>totalMatched = 1, totalUnmatchedBooks = 0,
                                totalUnmatchedStatement = 0, matchPercentage = 100\<rparr>\<rparr>"
proof (intro conjI impI)
  assume a: "st = fold (processEntry gt) earlier (initialState bankBook)
      \<and> stmt_chequeNumber e = Some c \<and> c \<noteq> []
      \<and> key = c @ ''_'' @ toFixed2 (numOr (stmt_debit e) (stmt_credit e))
      \<and> bookMap st key = Some (b # rest)
      \<and> b \<in> set (bookTransactions st)"
  note st = a [THEN conjunct1]
  note c = a [THEN conjunct2, THEN conjunct1]
    a [THEN conjunct2, THEN conjunct2, THEN conjunct1]
  note key = a [THEN conjunct2, THEN conjunct2, THEN conjunct2, THEN conjunct1]
  note m = a [THEN conjunct2, THEN conjunct2, THEN conjunct2, THEN conjunct2, THEN conjunct1]
  note b = a [THEN conjunct2, THEN conjunct2, THEN conjunct2, THEN conjunct2, THEN conjunct2]
  have step: "processEntry g e st = exactMatchedState e key b rest st" for g
    unfolding key using c m [unfolded key] by (rule processEntry_exact)
  show "processEntry gt' e st = exactMatchedState e key b rest st"
    by (rule step)
  show "createMatchKey (snd b) = key"
    using m [unfolded st] by (rule lookup_keys_reachable) simp
  show "b \<notin> bookTransaction ` set (st_matched st)"
    using st b step by (rule exact_pairing_book_side(1))
  show "b \<notin> set (bookTransactions (fold (processEntry gt) later (processEntry gt e st)))"
    using st b step by (rule exact_pairing_book_side(2))
  show "\<forall>m \<in> set (st_matched (fold (processEntry gt) later (processEntry gt e st))).
              bookTransaction m = b \<longrightarrow> matchType m = ''Exact''"
    using st b step by (rule exact_pairing_book_side(3))
next
  show "bookMap (initialState bankBook) k
       = (case filter (\<lambda>b. createMatchKey (snd b) = k) (enumerate 0 bankBook) of
            [] \<Rightarrow> None
          | l \<Rightarrow> Some l)"
    by (rule initial_bookMap)
next
  assume "chequeNumber t = Some c
        \<and> numOr (debit t) (credit t) = numOr (stmt_debit e) (stmt_credit e)"
  then show "createMatchKey t = c @ ''_'' @ toFixed2 (numOr (stmt_debit e) (stmt_credit e))"
    by (simp add: createMatchKey_def Let_def)
next
  show "autoReconcile gt (Inr [bookTxn d1 ''CHQ100'' 0 5000])
         [stmtEntry d2 (Some ''CHQ100'') 5000 0]
       = Inr \<lparr>matched = [\<lparr>bookTransaction = (0, bookTxn d1 ''CHQ100'' 0 5000),
                           statementEntry = stmtEntry d2 (Some ''CHQ100'') 5000 0,
                           matchType = ''Exact'', daysDifference = None\<rparr>],
              unmatchedInBooks = [], unmatchedInStatement = [], amountMismatch = [],
              dateMismatch = [],
              recon_summary = \<lparr>totalMatched = 1, totalUnmatchedBooks = 0,
                                totalUnmatchedStatement = 0, matchPercentage = 100\<rparr>\<rparr>"
    by (rule scenario_cheque)
qed

text \<open>
  The amended statement at the scenario records: the statement line with cheque CHQ100 is
  processed first and finds the book record first in the lookup and still unmatched; a later
  line without a cheque number does not find the record in the list the fuzzy phase scans.
\<close>

theorem exact_phase_first_candidate_witness:
  "stmt_chequeNumber chequeEntry = Some ''CHQ100''
   \<and> bookMap (initialState [chequeBook]) ''CHQ100_5000.00'' = Some [(0, chequeBook)]
   \<and> (0, chequeBook) \<in> set (bookTransactions (initialState [chequeBook]))
   \<and> createMatchKey chequeBook = ''CHQ100_5000.00''
   \<and> processEntry (isoGetTime Map.empty) chequeEntry (initialState [chequeBook])
       = exactMatchedState chequeEntry ''CHQ100_5000.00'' (0, chequeBook) []
           (initialState [chequeBook])
   \<and> (0, chequeBook) \<notin> bookTransaction ` set (st_matched (initialState [chequeBook]))
   \<and> (0, chequeBook) \<notin> set (bookTransactions
         (fold (processEntry (isoGetTime Map.empty)) [plainEntry]
            (processEntry (isoGetTime Map.empty) chequeEntry (initialState [chequeBook]))))"
proof -
  let ?st = "initialState [chequeBook]"
  let ?gt = "isoGetTime Map.empty"
  have fx: "toFixed2 (numOr (stmt_debit chequeEntry) (stmt_credit chequeEntry)) = ''5000.00''"
    by (simp add: state_eval chequeEntry_def)
  have c: "stmt_chequeNumber chequeEntry = Some ''CHQ100''"
    by (simp add: chequeEntry_def stmtEntry_def)
  have t: "chequeNumber chequeBook = Some ''CHQ100''
        \<and> numOr (debit chequeBook) (credit chequeBook)
            = numOr (stmt_debit chequeEntry) (stmt_credit chequeEntry)"
    by (simp add: chequeBook_def chequeEntry_def bookTxn_def stmtEntry_def numOr_def)
  have u: "(0, chequeBook) \<in> set (bookTransactions ?st)"
    by (simp add: initialState_def Let_def)
  note inst = exact_phase_first_candidate
    [where st = ?st and gt = ?gt and earlier = "[]" and bankBook = "[chequeBook]"
       and e = chequeEntry and c = "''CHQ100''" and key = "''CHQ100_5000.00''"
       and b = "(0, chequeBook)" and rest = "[]" and gt' = ?gt and later = "[plainEntry]"
       and k = "''CHQ100_5000.00''" and t = chequeBook]
  have k: "createMatchKey chequeBook = ''CHQ100_5000.00''"
    using inst [THEN conjunct2, THEN conjunct2, THEN conjunct1] t fx by simp
  have m: "bookMap ?st ''CHQ100_5000.00'' = Some [(0, chequeBook)]"
    using inst [THEN conjunct2, THEN conjunct1] k by simp
  have prem: "?st = fold (processEntry ?gt) [] (initialState [chequeBook])
      \<and> stmt_chequeNumber chequeEntry = Some ''CHQ100'' \<and> ''CHQ100'' \<noteq> []
      \<and> ''CHQ100_5000.00''
          = ''CHQ100'' @ ''_'' @ toFixed2 (numOr (stmt_debit chequeEntry) (stmt_credit chequeEntry))
      \<and> bookMap ?st ''CHQ100_5000.00'' = Some [(0, chequeBook)]
      \<and> (0, chequeBook) \<in> set (bookTransactions ?st)"
    by (simp add: c m u fx)
  note r = inst [THEN conjunct1, THEN mp, OF prem]
  show ?thesis
    by (intro conjI)
      (rule c m u k r [THEN conjunct1] r [THEN conjunct2, THEN conjunct2, THEN conjunct1]
         r [THEN conjunct2, THEN conjunct2, THEN conjunct2, THEN conjunct1])+
qed

text \<open>
  C4 as stated fails in three ways. Of two statement lines with the key of the one book
  record, the first consumes the record; the second shares cheque number and amount with it,
  goes through the fuzzy phase and ends unmatched. A statement line without a cheque number
  that comes first is paired in the fuzzy phase with a book record that has a cheque number,
  although a later line shares cheque number and amount with that record. And a book record
  and a statement line that both have the empty cheque number and the same amount are not
  paired in the exact phase but in the fuzzy phase.
\<close>

theorem exact_phase_counterexample:
  "createMatchKey chequeBook = ''CHQ100_5000.00''
   \<and> autoReconcile (isoGetTime Map.empty) (Inr [chequeBook]) [chequeEntry, chequeEntry]
       = Inr \<lparr>matched = [\<lparr>bookTransaction = (0, chequeBook), statementEntry = chequeEntry,
                           matchType = ''Exact'', daysDifference = None\<rparr>],
              unmatchedInBooks = [], unmatchedInStatement = [chequeEntry], amountMismatch = [],
              dateMismatch = [],
              recon_summary = \<lparr>totalMatched = 1, totalUnmatchedBooks = 0,
                                totalUnmatchedStatement = 1, matchPercentage = 50\<rparr>\<rparr>
   \<and> st_matched (fold (processEntry (isoGetTime Map.empty)) [plainEntry] (initialState [chequeBook]))
       = [\<lparr>bookTransaction = (0, chequeBook), statementEntry = plainEntry,
            matchType = ''Amount (Date Mismatch)'', daysDifference = Some 1\<rparr>]
   \<and> autoReconcile (isoGetTime Map.empty) (Inr [bookTxn ''2024-01-10'' [] 0 5000])
         [stmtEntry ''2024-01-10'' (Some []) 5000 0]
       = Inr \<lparr>matched = [\<lparr>bookTransaction = (0, bookTxn ''2024-01-10'' [] 0 5000),
                           statementEntry = stmtEntry ''2024-01-10'' (Some []) 5000 0,
                           matchType = ''Amount+Date'', daysDifference = Some 0\<rparr>],
              unmatchedInBooks = [], unmatchedInStatement = [], amountMismatch = [],
              dateMismatch = [],
              recon_summary = \<lparr>totalMatched = 1, totalUnmatchedBooks = 0,
                                totalUnmatchedStatement = 0, matchPercentage = 100\<rparr>\<rparr>"
proof (intro conjI)
  show "createMatchKey chequeBook = ''CHQ100_5000.00''"
    by (simp add: reconcile_eval chequeBook_def)
  show "autoReconcile (isoGetTime Map.empty) (Inr [chequeBook]) [chequeEntry, chequeEntry]
       = Inr \<lparr>matched = [\<lparr>bookTransaction = (0, chequeBook), statementEntry = chequeEntry,
                           matchType = ''Exact'', daysDifference = None\<rparr>],
              unmatchedInBooks = [], unmatchedInStatement = [chequeEntry], amountMismatch = [],
              dateMismatch = [],
              recon_summary = \<lparr>totalMatched = 1, totalUnmatchedBooks = 0,
                                totalUnmatchedStatement = 1, matchPercentage = 50\<rparr>\<rparr>"
    by (simp add: reconcile_eval chequeBook_def chequeEntry_def)
  show "st_matched (fold (processEntry (isoGetTime Map.empty)) [plainEntry] (initialState [chequeBook]))
       = [\<lparr>bookTransaction = (0, chequeBook), statementEntry = plainEntry,
            matchType = ''Amount (Date Mismatch)'', daysDifference = Some 1\<rparr>]"
    by (simp add: reconcile_eval chequeBook_def plainEntry_def)
  show "autoReconcile (isoGetTime Map.empty) (Inr [bookTxn ''2024-01-10'' [] 0 5000])
         [stmtEntry ''2024-01-10'' (Some []) 5000 0]
       = Inr \<lparr>matched = [\<lparr>bookTransaction = (0, bookTxn ''2024-01-10'' [] 0 5000),
                           statementEntry = stmtEntry ''2024-01-10'' (Some []) 5000 0,
                           matchType = ''Amount+Date'', daysDifference = Some 0\<rparr>],
              unmatchedInBooks = [], unmatchedInStatement = [], amountMismatch = [],
              dateMismatch = [],
              recon_summary = \<lparr>totalMatched = 1, totalUnmatchedBooks = 0,
                                totalUnmatchedStatement = 0, matchPercentage = 100\<rparr>\<rparr>"
    by (simp add: reconcile_eval)
qed

text \<open>
  C2, the code at a failing input: the fuzzy phase pairs the book record with a statement
  line that has no cheque number and takes it off the list, but leaves it in the lookup; the
  exact phase then pairs the same record with the next line. The matched count 2 plus the
  unmatched-book count 0 is not the size 1 of the bank book.
\<close>

theorem book_record_matched_twice:
  "autoReconcile (isoGetTime other) (Inr [chequeBook]) [plainEntry, chequeEntry]
     = Inr \<lparr>matched = [\<lparr>bookTransaction = (0, chequeBook), statementEntry = plainEntry,
                         matchType = ''Amount (Date Mismatch)'', daysDifference = Some 1\<rparr>,
                       \<lparr>bookTransaction = (0, chequeBook), statementEntry = chequeEntry,
                         matchType = ''Exact'', daysDifference = None\<rparr>],
            unmatchedInBooks = [], unmatchedInStatement = [], amountMismatch = [],
            dateMismatch = [],
            recon_summary = \<lparr>totalMatched = 2, totalUnmatchedBooks = 0,
                              totalUnmatchedStatement = 0, matchPercentage = 100\<rparr>\<rparr>"
  by (simp add: reconcile_eval chequeBook_def chequeEntry_def plainEntry_def)

section \<open>Properties of the aging\<close>


lemma addToBucket_other:
  "billWiseDetails (addToBucket days amt a) = billWiseDetails a"
  "total (addToBucket days amt a) = total a"
  "partyName (addToBucket days amt a) = partyName a"
  by (simp_all add: addToBucket_def)


lemma processBill_other:
  "billWiseDetails (processBill gt asOn conv bill a)
     = billWiseDetails a @ [billDetail gt asOn conv bill]"
  "total (processBill gt asOn conv bill a) = total a"
  "partyName (processBill gt asOn conv bill a) = partyName a"
  by (simp_all add: processBill_def Let_def addToBucket_other)


lemma fold_processBill_total:
  "total (fold (processBill gt asOn conv) bills a) = total a"
  "partyName (fold (processBill gt asOn conv) bills a) = partyName a"
  by (induction bills arbitrary: a) (simp_all add: processBill_other)










end
